theory Spec2Isabelle
  imports
    Complex_Main
    "HOL-Library.Char_ord"
    "HOL-Library.List_Lexorder"
    "HOL-Library.Product_Lexorder"
begin

section \<open>KinetiCandles: time bucketing, candle aggregation and pattern classification\<close>

text \<open>
  A shallow embedding of \<^verbatim>\<open>src/KinetiCandles_v3.py\<close> (classes \<^verbatim>\<open>DataModel\<close>,
  \<^verbatim>\<open>ChartView\<close>, \<^verbatim>\<open>KinetiCandlesApp\<close>) and of the window handler, the charts and the
  analyses of \<^verbatim>\<open>src/candle.py\<close>.

  Conventions of the embedding:
  \<^item> a pandas timestamp is its \<^verbatim>\<open>datetime64[ns]\<close> value: an \<open>int\<close> of nanoseconds since
    1970-01-01 00:00:00 (timezone-naive, as \<^verbatim>\<open>pd.to_datetime\<close> yields for the CSV text);
  \<^item> an activity level is a \<open>real\<close> (the IEEE double of the source, without rounding);
    a NaN produced by pandas for a missing aggregate is \<open>None\<close>;
  \<^item> a method that mutates \<^verbatim>\<open>self\<close> or its argument returns the updated values;
  \<^item> dialogs and drawing calls are recorded as events appended to the field \<open>ui\<close>.
\<close>

subsection \<open>Timestamps\<close>

definition epoch :: "int \<Rightarrow> int" where
  \<comment> \<open>\<^verbatim>\<open>timestamp.astype('int64') // 10**9\<close>: whole seconds since the epoch, floored.\<close>
  "epoch ts = ts div 10 ^ 9"

definition dt_date :: "int \<Rightarrow> int" where
  \<comment> \<open>\<^verbatim>\<open>.dt.date\<close>, as the number of the calendar day (day 0 is 1970-01-01).\<close>
  "dt_date ts = epoch ts div 86400"

definition dt_hour :: "int \<Rightarrow> int" where
  "dt_hour ts = (epoch ts div 3600) mod 24"

definition dt_minute :: "int \<Rightarrow> int" where
  "dt_minute ts = (epoch ts div 60) mod 60"

definition dt_second :: "int \<Rightarrow> int" where
  "dt_second ts = epoch ts mod 60"

definition DAYS_OF_WEEK :: "string list" where
  "DAYS_OF_WEEK =
     [''Monday'', ''Tuesday'', ''Wednesday'', ''Thursday'', ''Friday'', ''Saturday'', ''Sunday'']"

definition day_name :: "int \<Rightarrow> string" where
  \<comment> \<open>\<^verbatim>\<open>.dt.day_name()\<close>; 1970-01-01 was a Thursday.\<close>
  "day_name ts = DAYS_OF_WEEK ! nat ((dt_date ts + 3) mod 7)"

type_synonym minute_key = "int \<times> int \<times> int"

definition strftime_minute :: "int \<Rightarrow> minute_key" where
  \<comment> \<open>\<^verbatim>\<open>.dt.strftime('%Y-%m-%d %H:%M')\<close>. The text is a one-to-one rendering of the calendar
      day, the hour and the minute; the key is kept as that triple.\<close>
  "strftime_minute ts = (dt_date ts, dt_hour ts, dt_minute ts)"

subsection \<open>Data frames\<close>

record sample =
  timestamp :: int
  activity_level :: real
  day_of_week :: string

record frame =
  rows :: "sample list"
  minute_key :: "minute_key list option"

text \<open>
  A \<open>frame\<close> is the DataFrame held by the model: its rows carry the columns
  \<^verbatim>\<open>timestamp\<close>, \<^verbatim>\<open>activity_level\<close> and \<^verbatim>\<open>day_of_week\<close>; the column \<^verbatim>\<open>minute_key\<close>
  exists once it has been assigned (\<open>Some\<close> of its cells, one per row).
\<close>

definition columns :: "frame \<Rightarrow> string list" where
  "columns f =
     [''timestamp'', ''activity_level'', ''day_of_week'']
       @ (case minute_key f of None \<Rightarrow> [] | Some _ \<Rightarrow> [''minute_key''])"

subsection \<open>pandas primitives\<close>

definition groupby :: "('r \<Rightarrow> 'k::linorder) \<Rightarrow> 'r list \<Rightarrow> ('k \<times> 'r list) list" where
  \<comment> \<open>\<^verbatim>\<open>df.groupby(key)\<close>: one group per distinct key, keys ascending, the rows of a group
      in their original order.\<close>
  "groupby key rs = map (\<lambda>k. (k, filter (\<lambda>r. key r = k) rs)) (sort (remdups (map key rs)))"

type_synonym pyfloat = "real option"

text \<open>
  A float cell or float variable is a \<open>pyfloat\<close>: \<open>Some x\<close> for the number \<open>x\<close>, \<open>None\<close> for NaN.
  Every comparison with NaN is false; arithmetic on NaN gives NaN.
\<close>

definition fgt :: "pyfloat \<Rightarrow> pyfloat \<Rightarrow> bool" where
  "fgt a b = (case a of None \<Rightarrow> False | Some x \<Rightarrow> (case b of None \<Rightarrow> False | Some y \<Rightarrow> x > y))"

definition flt :: "pyfloat \<Rightarrow> pyfloat \<Rightarrow> bool" where
  "flt a b = (case a of None \<Rightarrow> False | Some x \<Rightarrow> (case b of None \<Rightarrow> False | Some y \<Rightarrow> x < y))"

definition fge :: "pyfloat \<Rightarrow> pyfloat \<Rightarrow> bool" where
  "fge a b = (case a of None \<Rightarrow> False | Some x \<Rightarrow> (case b of None \<Rightarrow> False | Some y \<Rightarrow> x \<ge> y))"

definition fsub :: "pyfloat \<Rightarrow> pyfloat \<Rightarrow> pyfloat" where
  "fsub a b = (case a of None \<Rightarrow> None | Some x \<Rightarrow> (case b of None \<Rightarrow> None | Some y \<Rightarrow> Some (x - y)))"

definition fmul :: "pyfloat \<Rightarrow> pyfloat \<Rightarrow> pyfloat" where
  "fmul a b = (case a of None \<Rightarrow> None | Some x \<Rightarrow> (case b of None \<Rightarrow> None | Some y \<Rightarrow> Some (x * y)))"

definition fabs :: "pyfloat \<Rightarrow> pyfloat" where
  "fabs a = map_option abs a"

definition dropna :: "pyfloat list \<Rightarrow> real list" where
  "dropna cs = List.map_filter id cs"

definition agg_mean :: "real list \<Rightarrow> pyfloat" where
  "agg_mean xs = (if xs = [] then None else Some (sum_list xs / real (length xs)))"

definition agg_std :: "real list \<Rightarrow> pyfloat" where
  \<comment> \<open>sample standard deviation (\<^verbatim>\<open>ddof=1\<close>): NaN for fewer than two values.\<close>
  "agg_std xs =
     (if length xs < 2 then None
      else Some (sqrt (sum_list (map (\<lambda>x. (x - sum_list xs / real (length xs))\<^sup>2) xs)
                        / real (length xs - 1))))"

definition agg_max :: "real list \<Rightarrow> pyfloat" where
  "agg_max xs = (case xs of [] \<Rightarrow> None | x # ys \<Rightarrow> Some (foldl max x ys))"

definition agg_min :: "real list \<Rightarrow> pyfloat" where
  "agg_min xs = (case xs of [] \<Rightarrow> None | x # ys \<Rightarrow> Some (foldl min x ys))"

definition agg_first :: "real list \<Rightarrow> pyfloat" where
  "agg_first xs = (case xs of [] \<Rightarrow> None | x # ys \<Rightarrow> Some x)"

definition agg_last :: "real list \<Rightarrow> pyfloat" where
  "agg_last xs = (if xs = [] then None else Some (last xs))"

definition agg_count :: "real list \<Rightarrow> pyfloat" where
  "agg_count xs = Some (real (length xs))"

definition series_mean :: "pyfloat list \<Rightarrow> pyfloat" where
  \<comment> \<open>\<^verbatim>\<open>Series.mean()\<close>: NaN cells are skipped; NaN when nothing is left.\<close>
  "series_mean cs = agg_mean (dropna cs)"

definition series_std :: "pyfloat list \<Rightarrow> pyfloat" where
  "series_std cs = agg_std (dropna cs)"

definition fillna :: "real \<Rightarrow> pyfloat \<Rightarrow> pyfloat" where
  "fillna v c = (case c of None \<Rightarrow> Some v | Some x \<Rightarrow> Some x)"

definition idxmax :: "('i \<times> pyfloat) list \<Rightarrow> 'i option" where
  \<comment> \<open>\<^verbatim>\<open>Series.idxmax()\<close>: the label of the first cell holding the greatest number, NaN cells
      skipped. \<open>None\<close> stands for a series with no number, where pandas has no label to give.\<close>
  "idxmax cells =
     (case List.map_filter (\<lambda>(i, c). map_option (Pair i) c) cells of
        [] \<Rightarrow> None
      | x # xs \<Rightarrow> Some (fst (foldl (\<lambda>b y. if snd y > snd b then y else b) x xs)))"

definition idxmin :: "('i \<times> pyfloat) list \<Rightarrow> 'i option" where
  "idxmin cells =
     (case List.map_filter (\<lambda>(i, c). map_option (Pair i) c) cells of
        [] \<Rightarrow> None
      | x # xs \<Rightarrow> Some (fst (foldl (\<lambda>b y. if snd y < snd b then y else b) x xs)))"

definition reindex :: "'k list \<Rightarrow> 'v \<Rightarrow> ('k \<times> 'v) list \<Rightarrow> ('k \<times> 'v) list" where
  \<comment> \<open>\<^verbatim>\<open>df.reindex(labels)\<close>: one row per label, in the order of \<open>labels\<close>; a label the
      table lacks gets the row \<open>nan\<close>.\<close>
  "reindex labels nan tbl =
     map (\<lambda>l. (l, case map_of tbl l of None \<Rightarrow> nan | Some v \<Rightarrow> v)) labels"

definition loc :: "('k \<times> 'v) list \<Rightarrow> 'k \<Rightarrow> 'v" where
  \<comment> \<open>\<^verbatim>\<open>series[label]\<close> for a label of the index (every use below looks up such a label).\<close>
  "loc tbl l = the (map_of tbl l)"

subsection \<open>The model class\<close>

record data_model =
  data :: "frame option"
  current_day_index :: nat
  days :: "int list"
  has_second_resolution :: bool

definition init_model :: data_model where
  "init_model = \<lparr>data = None, current_day_index = 0, days = [], has_second_resolution = False\<rparr>"

definition df_sample :: "frame \<Rightarrow> nat list \<Rightarrow> frame" where
  \<comment> \<open>\<^verbatim>\<open>data.sample(n)\<close>: a new frame holding the rows at the drawn positions. The random
      draw is the parameter \<open>draw\<close> (pandas draws \<open>n\<close> distinct positions of the frame).\<close>
  "df_sample f draw =
     \<lparr>rows = map (\<lambda>i. rows f ! i) draw,
      minute_key = map_option (\<lambda>ks. map (\<lambda>i. ks ! i) draw) (minute_key f)\<rparr>"

definition detect_data_resolution :: "data_model \<Rightarrow> frame \<Rightarrow> nat list \<Rightarrow> data_model \<times> frame" where
  \<comment> \<open>Returns the updated \<^verbatim>\<open>self\<close> and the caller's frame \<^verbatim>\<open>data\<close> as the call leaves it.
      With at most 1000 rows \<^verbatim>\<open>sample\<close> is the very object \<^verbatim>\<open>data\<close>, so the column assigned
      to \<^verbatim>\<open>sample\<close> is assigned to \<^verbatim>\<open>data\<close>; otherwise \<^verbatim>\<open>sample\<close> is a new frame.\<close>
  "detect_data_resolution self dat draw =
     (let sample_size = min 1000 (length (rows dat));
          aliased = \<not> (length (rows dat) > sample_size);
          smp = (if length (rows dat) > sample_size then df_sample dat draw else dat);
          keys = map (\<lambda>r. strftime_minute (timestamp r)) (rows smp);
          smp = smp\<lparr>minute_key := Some keys\<rparr>;
          records_per_minute =
            map (\<lambda>(k, g). (k, length g)) (groupby snd (zip (rows smp) keys))
      in (self\<lparr>has_second_resolution := list_ex (\<lambda>(k, n). n > 1) records_per_minute\<rparr>,
          if aliased then smp else dat))"

definition load_data :: "data_model \<Rightarrow> string list \<Rightarrow> (int \<times> real) list \<Rightarrow> nat list \<Rightarrow> string + data_model" where
  \<comment> \<open>\<^verbatim>\<open>DataModel.load_data\<close> from the point where \<^verbatim>\<open>pd.read_csv\<close> has returned: the header of
      the file and its rows, each with the parsed timestamp and activity level. \<open>Inl\<close> is the
      ValueError raised for a missing column; \<^verbatim>\<open>self\<close> is then as before.\<close>
  "load_data self csv_columns csv_rows draw =
     (if \<not> list_all (\<lambda>col. col \<in> set csv_columns) [''timestamp'', ''activity_level'']
      then Inl ''The file must contain these columns: timestamp, activity_level''
      else
        let dat = \<lparr>rows = map (\<lambda>(ts, v). \<lparr>timestamp = ts, activity_level = v,
                                            day_of_week = day_name ts\<rparr>) csv_rows,
                   minute_key = None\<rparr>;
            (self, dat) = detect_data_resolution self dat draw;
            self = self\<lparr>data := Some dat\<rparr>;
            self = self\<lparr>days := sort (remdups (map (\<lambda>r. dt_date (timestamp r)) (rows dat)))\<rparr>;
            self = self\<lparr>current_day_index := 0\<rparr>
        in Inr self)"

definition get_current_date :: "data_model \<Rightarrow> int option" where
  "get_current_date self =
     (if days self = [] \<or> current_day_index self \<ge> length (days self) then None
      else Some (days self ! current_day_index self))"

definition get_data_for_current_day :: "data_model \<Rightarrow> sample list option" where
  "get_data_for_current_day self =
     (case get_current_date self of
        None \<Rightarrow> None
      | Some current_date \<Rightarrow>
          (case data self of
             None \<Rightarrow> None
           | Some d \<Rightarrow> Some (filter (\<lambda>r. dt_date (timestamp r) = current_date) (rows d))))"


record hourly_row =
  h_hour :: int
  h_first :: pyfloat
  h_last :: pyfloat
  h_max :: pyfloat
  h_min :: pyfloat
  h_mean :: pyfloat
  h_std :: pyfloat

text \<open>\<open>h_hour\<close> is the column that \<^verbatim>\<open>reset_index()\<close> names \<^verbatim>\<open>timestamp\<close>: the hour of the group.\<close>

definition get_daily_data_grouped_by_hour :: "data_model \<Rightarrow> hourly_row list option" where
  "get_daily_data_grouped_by_hour self =
     (case get_data_for_current_day self of
        None \<Rightarrow> None
      | Some day_data \<Rightarrow>
          if length day_data = 0 then None
          else Some (map (\<lambda>(h, g). let vs = map activity_level g in
                           \<lparr>h_hour = h, h_first = agg_first vs, h_last = agg_last vs,
                            h_max = agg_max vs, h_min = agg_min vs, h_mean = agg_mean vs,
                            h_std = agg_std vs\<rparr>)
                      (groupby (\<lambda>r. dt_hour (timestamp r)) day_data)))"

record weekly_row =
  w_mean :: pyfloat
  w_std :: pyfloat
  w_max :: pyfloat
  w_min :: pyfloat
  w_count :: pyfloat

definition nan_row :: weekly_row where
  "nan_row = \<lparr>w_mean = None, w_std = None, w_max = None, w_min = None, w_count = None\<rparr>"

definition get_weekly_data :: "data_model \<Rightarrow> (string \<times> weekly_row) list option" where
  "get_weekly_data self =
     (case data self of
        None \<Rightarrow> None
      | Some d \<Rightarrow>
          Some (reindex DAYS_OF_WEEK nan_row
                  (map (\<lambda>(k, g). let vs = map activity_level g in
                          (k, \<lparr>w_mean = agg_mean vs, w_std = agg_std vs, w_max = agg_max vs,
                               w_min = agg_min vs, w_count = agg_count vs\<rparr>))
                       (groupby day_of_week (rows d)))))"

record window_row = sample +
  time_index :: real

definition get_high_resolution_data :: "data_model \<Rightarrow> int \<Rightarrow> int \<Rightarrow> window_row list option" where
  "get_high_resolution_data self start_hour end_hour =
     (case get_data_for_current_day self of
        None \<Rightarrow> None
      | Some day_data \<Rightarrow>
          if length day_data = 0 then None
          else
            let window_data =
                  filter (\<lambda>r. dt_hour (timestamp r) \<ge> start_hour \<and> dt_hour (timestamp r) < end_hour)
                    day_data
            in if length window_data = 0 then None
               else Some (map (\<lambda>r. \<lparr>timestamp = timestamp r, activity_level = activity_level r,
                                      day_of_week = day_of_week r,
                                      time_index = real_of_int (dt_hour (timestamp r) * 60
                                                     + dt_minute (timestamp r))
                                                   + real_of_int (dt_second (timestamp r)) / 60\<rparr>)
                           window_data))"

record candle =
  c_time_index :: real
  c_first :: pyfloat
  c_last :: pyfloat
  c_max :: pyfloat
  c_min :: pyfloat
  c_time_str :: string
  c_timestamp :: int
  c_interval_seconds :: int

definition digit2 :: "int \<Rightarrow> string" where
  \<comment> \<open>the format \<^verbatim>\<open>02d\<close> for a number from 0 to 99 (an hour, a minute or a second).\<close>
  "digit2 n = [char_of (48 + n div 10), char_of (48 + n mod 10)]"

definition interval_of :: "int \<Rightarrow> int \<Rightarrow> int" where
  \<comment> \<open>the cell of the column \<^verbatim>\<open>interval\<close>: \<^verbatim>\<open>(epoch // interval_seconds) * interval_seconds\<close>.\<close>
  "interval_of interval_seconds ts = (epoch ts div interval_seconds) * interval_seconds"

definition make_candle :: "int \<Rightarrow> int \<Rightarrow> 'a window_row_scheme list \<Rightarrow> candle" where
  \<comment> \<open>the dictionary appended for one group. \<open>interval\<close> is in seconds since the epoch, so
      the hour, minute and second of \<^verbatim>\<open>interval_dt\<close> are those of \<open>interval * 10 ^ 9\<close>.\<close>
  "make_candle interval_seconds interval grp =
     (let interval_dt = interval * 10 ^ 9;
          vs = map activity_level grp
      in \<lparr>c_time_index = real_of_int (dt_hour interval_dt * 60 + dt_minute interval_dt)
                          + real_of_int (dt_second interval_dt) / 60,
          c_first = agg_first vs,
          c_last = agg_last vs,
          c_max = agg_max vs,
          c_min = agg_min vs,
          c_time_str =
            (if interval_seconds < 60
             then digit2 (dt_hour interval_dt) @ '':'' @ digit2 (dt_minute interval_dt) @ '':''
                    @ digit2 (dt_second interval_dt)
             else digit2 (dt_hour interval_dt) @ '':'' @ digit2 (dt_minute interval_dt)),
          c_timestamp = interval,
          c_interval_seconds = interval_seconds\<rparr>)"

definition interval_groups :: "int \<Rightarrow> 'a window_row_scheme list \<Rightarrow> (int \<times> 'a window_row_scheme list) list" where
  \<comment> \<open>\<^verbatim>\<open>window_data.groupby('interval')\<close>.\<close>
  "interval_groups interval_seconds wd =
     groupby (\<lambda>r. interval_of interval_seconds (timestamp r)) wd"

fun candle_loop :: "int \<Rightarrow> (int \<times> 'a window_row_scheme list) list \<Rightarrow> candle list" where
  \<comment> \<open>the loop over the groups: a group of more than one row appends its candle.\<close>
  "candle_loop interval_seconds [] = []"
| "candle_loop interval_seconds ((interval, grp) # rest) =
     (if length grp > 1 then [make_candle interval_seconds interval grp] else [])
       @ candle_loop interval_seconds rest"

definition get_candle_data :: "'a window_row_scheme list option \<Rightarrow> int \<Rightarrow> candle list" where
  \<comment> \<open>The columns \<^verbatim>\<open>epoch\<close> and \<^verbatim>\<open>interval\<close> that the method adds to \<^verbatim>\<open>window_data\<close> are the
      grouping key here. The model covers a positive \<open>interval_seconds\<close>.\<close>
  "get_candle_data window_data interval_seconds =
     (case window_data of
        None \<Rightarrow> []
      | Some wd \<Rightarrow>
          if length wd = 0 then []
          else candle_loop interval_seconds (interval_groups interval_seconds wd))"


subsection \<open>Pattern analysis\<close>

record day_analysis =
  pattern_type :: string
  peak_hour :: "int option"
  morning_activity :: pyfloat
  midday_activity :: pyfloat
  evening_activity :: pyfloat
  volatility :: pyfloat
  volatility_desc :: string

definition between :: "int \<Rightarrow> int \<Rightarrow> hourly_row \<Rightarrow> bool" where
  \<comment> \<open>\<^verbatim>\<open>hourly_data['timestamp'].between(lo, hi)\<close>: both ends included.\<close>
  "between lo hi r = (lo \<le> h_hour r \<and> h_hour r \<le> hi)"

definition analyze_day_patterns :: "data_model \<Rightarrow> day_analysis option" where
  \<comment> \<open>\<open>None\<close> is the empty dictionary. \<open>peak_hour\<close> is \<open>None\<close> only where \<^verbatim>\<open>idxmax\<close> has no
      label to give.\<close>
  "analyze_day_patterns self =
     (case get_daily_data_grouped_by_hour self of
        None \<Rightarrow> None
      | Some hourly_data \<Rightarrow>
          if length hourly_data = 0 then None
          else
            let peak_hour =
                  map_option (\<lambda>i. h_hour (hourly_data ! i))
                    (idxmax (zip [0..<length hourly_data] (map h_max hourly_data)));
                morning_hours = filter (between 6 11) hourly_data;
                midday_hours = filter (between 12 17) hourly_data;
                evening_hours = filter (between 18 23) hourly_data;
                morning_activity =
                  (if length morning_hours > 0 then series_mean (map h_mean morning_hours) else Some 0);
                midday_activity =
                  (if length midday_hours > 0 then series_mean (map h_mean midday_hours) else Some 0);
                evening_activity =
                  (if length evening_hours > 0 then series_mean (map h_mean evening_hours) else Some 0);
                pattern_type =
                  (if fgt morning_activity midday_activity \<and> fgt morning_activity evening_activity
                   then ''morning_peak''
                   else if fgt evening_activity morning_activity
                           \<and> fgt evening_activity midday_activity
                   then ''evening_peak''
                   else if fgt midday_activity morning_activity
                           \<and> fgt midday_activity evening_activity
                   then ''midday_peak''
                   else if flt (fabs (fsub morning_activity evening_activity)) (Some 5)
                           \<and> fgt morning_activity midday_activity
                   then ''bimodal''
                   else ''consistent'');
                volatility = series_mean (map h_std hourly_data);
                volatility_desc =
                  (if fgt volatility (Some 20)
                   then ''High variability in activity levels throughout the day.''
                   else if fgt volatility (Some 10)
                   then ''Moderate variability in activity levels.''
                   else ''Consistent activity levels with minimal fluctuation.'')
            in Some \<lparr>pattern_type = pattern_type, peak_hour = peak_hour,
                      morning_activity = morning_activity, midday_activity = midday_activity,
                      evening_activity = evening_activity, volatility = volatility,
                      volatility_desc = volatility_desc\<rparr>)"

record week_analysis =
  wk_pattern_type :: string
  most_active_day :: "string option"
  least_active_day :: "string option"
  weekday_avg :: pyfloat
  weekend_avg :: pyfloat
  daily_averages :: "(string \<times> pyfloat) list"

definition analyze_week_patterns :: "data_model \<Rightarrow> week_analysis option" where
  "analyze_week_patterns self =
     (case get_weekly_data self of
        None \<Rightarrow> None
      | Some weekly_data \<Rightarrow>
          if weekly_data = [] then None
          else
            let daily_avg = map (\<lambda>(d, r). (d, fillna 0 (w_mean r))) weekly_data;
                weekday_indices = filter (\<lambda>i. i < 5) [0..<length DAYS_OF_WEEK];
                weekend_indices = filter (\<lambda>i. i \<ge> 5) [0..<length DAYS_OF_WEEK];
                weekday_days =
                  map (\<lambda>i. DAYS_OF_WEEK ! i)
                    (filter (\<lambda>i. DAYS_OF_WEEK ! i \<in> set (map fst daily_avg)) weekday_indices);
                weekend_days =
                  map (\<lambda>i. DAYS_OF_WEEK ! i)
                    (filter (\<lambda>i. DAYS_OF_WEEK ! i \<in> set (map fst daily_avg)) weekend_indices);
                weekday_avg =
                  (if weekday_days \<noteq> [] then series_mean (map (loc daily_avg) weekday_days)
                   else Some 0);
                weekend_avg =
                  (if weekend_days \<noteq> [] then series_mean (map (loc daily_avg) weekend_days)
                   else Some 0);
                isna_all = list_all (\<lambda>(d, c). c = None) daily_avg;
                most_active_day =
                  (if daily_avg \<noteq> [] then (if \<not> isna_all then idxmax daily_avg else None)
                   else None);
                least_active_day =
                  (if daily_avg \<noteq> [] then (if \<not> isna_all then idxmin daily_avg else None)
                   else None);
                pattern_type =
                  (if fgt weekend_avg (fmul weekday_avg (Some (13 / 10))) then ''weekend_warrior''
                   else if fgt weekday_avg (fmul weekend_avg (Some (13 / 10)))
                   then ''workweek_active''
                   else if flt (series_std (map snd daily_avg)) (Some 10) then ''consistent_weekly''
                   else ''variable_weekly'')
            in Some \<lparr>wk_pattern_type = pattern_type, most_active_day = most_active_day,
                      least_active_day = least_active_day, weekday_avg = weekday_avg,
                      weekend_avg = weekend_avg, daily_averages = daily_avg\<rparr>)"

subsection \<open>The chart of the week view\<close>

record week_candle =
  wc_x :: nat
  wc_open :: pyfloat
  wc_close :: pyfloat
  wc_high :: pyfloat
  wc_low :: pyfloat
  wc_color :: string

definition plot_week_view :: "(string \<times> weekly_row) list option \<Rightarrow> week_candle list" where
  \<comment> \<open>\<^verbatim>\<open>ChartView.plot_week_view\<close>: the candles drawn, one per pass of the loop that does
      not \<^verbatim>\<open>continue\<close>; no candle when the text "No weekly data available" is shown.\<close>
  "plot_week_view weekly_data =
     (case weekly_data of
        None \<Rightarrow> []
      | Some wd \<Rightarrow>
          if wd = [] then []
          else concat (map (\<lambda>(i, day).
                  if day \<notin> set (map fst wd) then []
                  else let day_stats = loc wd day
                       in [\<lparr>wc_x = i, wc_open = w_mean day_stats, wc_close = w_mean day_stats,
                             wc_high = w_max day_stats, wc_low = w_min day_stats,
                             wc_color = (if i \<ge> 5 then ''red'' else ''green'')\<rparr>])
                (List.enumerate 0 DAYS_OF_WEEK)))"

subsection \<open>The application\<close>

datatype view = Day | Week | High_res

datatype ui_event =
    ShowError string string
  | ShowInfo_NoData int int
  | ShowInfo_InsufficientData int
  | Chart_clear
  | Plot_high_resolution_view "candle list" int int int int
  | Update_high_res_analysis int
  | Update_view_label
  | Plot_kcandles

text \<open>
  \<open>ShowError title message\<close> is \<^verbatim>\<open>messagebox.showerror(title, message)\<close>. The two
  \<^verbatim>\<open>showinfo\<close> dialogs carry the numbers their text is formatted from. The other events are
  the calls on the chart, the analysis panel and the view label, with their arguments.
\<close>

record app =
  model :: data_model
  current_view :: view
  selected_start_hour :: int
  selected_end_hour :: int
  candle_interval_seconds :: int
  ui :: "ui_event list"

definition init_app :: app where
  "init_app = \<lparr>model = init_model, current_view = Day, selected_start_hour = 8,
               selected_end_hour = 10, candle_interval_seconds = 60, ui = []\<rparr>"

definition emit :: "ui_event list \<Rightarrow> app \<Rightarrow> app" where
  "emit es s = s\<lparr>ui := ui s @ es\<rparr>"

definition update_high_res_view_try :: "app \<Rightarrow> string + int \<Rightarrow> string + int \<Rightarrow> app \<times> string option" where
  \<comment> \<open>The body of the \<^verbatim>\<open>try\<close> block. The second and third arguments are what
      \<^verbatim>\<open>int(self.start_hour_var.get())\<close> and \<^verbatim>\<open>int(self.end_hour_var.get())\<close> give: \<open>Inr\<close> the
      number, or \<open>Inl\<close> the message of the ValueError that \<^verbatim>\<open>int\<close> raises. The result is the
      state where the block ends and the message of the ValueError raised, if any.\<close>
  "update_high_res_view_try self start_hour_var end_hour_var =
     (case start_hour_var of
        Inl e \<Rightarrow> (self, Some e)
      | Inr sh \<Rightarrow>
          let self = self\<lparr>selected_start_hour := sh\<rparr> in
          (case end_hour_var of
             Inl e \<Rightarrow> (self, Some e)
           | Inr eh \<Rightarrow>
               let self = self\<lparr>selected_end_hour := eh\<rparr> in
               if selected_start_hour self < 0 \<or> selected_start_hour self > 23
               then (self, Some ''Start hour must be between 0 and 23'')
               else if selected_end_hour self < 0 \<or> selected_end_hour self > 24
               then (self, Some ''End hour must be between 0 and 24'')
               else if selected_end_hour self \<le> selected_start_hour self
               then (self, Some ''End hour must be greater than start hour'')
               else if selected_end_hour self - selected_start_hour self > 4
               then (self, Some ''Time window must be 4 hours or less'')
               else
                 let self = (if current_view self \<noteq> High_res
                             then self\<lparr>current_view := High_res\<rparr> else self)
                 in (case get_current_date (model self) of
                       None \<Rightarrow> (self, None)
                     | Some current_date \<Rightarrow>
                         (case get_high_resolution_data (model self)
                                 (selected_start_hour self) (selected_end_hour self) of
                            None \<Rightarrow>
                              (emit [Chart_clear,
                                     ShowInfo_NoData (selected_start_hour self)
                                       (selected_end_hour self)] self, None)
                          | Some window_data \<Rightarrow>
                              if length window_data = 0
                              then (emit [Chart_clear,
                                          ShowInfo_NoData (selected_start_hour self)
                                            (selected_end_hour self)] self, None)
                              else
                                let candle_data =
                                      get_candle_data (Some window_data)
                                        (candle_interval_seconds self)
                                in if length candle_data = 0
                                   then (emit [Chart_clear,
                                               ShowInfo_InsufficientData
                                                 (candle_interval_seconds self)] self, None)
                                   else (emit [Plot_high_resolution_view candle_data current_date
                                                 (selected_start_hour self)
                                                 (selected_end_hour self)
                                                 (candle_interval_seconds self),
                                               Update_high_res_analysis
                                                 (candle_interval_seconds self),
                                               Update_view_label] self, None)))))"

definition update_high_res_view :: "app \<Rightarrow> string + int \<Rightarrow> string + int \<Rightarrow> app" where
  \<comment> \<open>the \<^verbatim>\<open>try\<close> block with its handler \<^verbatim>\<open>except ValueError as e\<close>.\<close>
  "update_high_res_view self start_hour_var end_hour_var =
     (case update_high_res_view_try self start_hour_var end_hour_var of
        (self', None) \<Rightarrow> self'
      | (self', Some e) \<Rightarrow> emit [ShowError ''Invalid Time Window'' e] self')"

subsection \<open>The window handler of candle.py\<close>

record candle_app =
  cv_current_view :: view
  cv_selected_start_hour :: int
  cv_selected_end_hour :: int
  cv_ui :: "ui_event list"

text \<open>
  The fields of \<^verbatim>\<open>KinetiCandlesApp\<close> in \<^verbatim>\<open>candle.py\<close> that its window handler reads or
  writes. Redrawing (\<^verbatim>\<open>update_view_label\<close>, \<^verbatim>\<open>plot_kcandles\<close>) is recorded as events.
\<close>

definition cv_update_high_res_view_try :: "candle_app \<Rightarrow> string + int \<Rightarrow> string + int \<Rightarrow> candle_app \<times> string option" where
  "cv_update_high_res_view_try self start_hour_var end_hour_var =
     (case start_hour_var of
        Inl e \<Rightarrow> (self, Some e)
      | Inr sh \<Rightarrow>
          let self = self\<lparr>cv_selected_start_hour := sh\<rparr> in
          (case end_hour_var of
             Inl e \<Rightarrow> (self, Some e)
           | Inr eh \<Rightarrow>
               let self = self\<lparr>cv_selected_end_hour := eh\<rparr> in
               if cv_selected_start_hour self < 0 \<or> cv_selected_start_hour self > 23
               then (self, Some ''Start hour must be between 0 and 23'')
               else if cv_selected_end_hour self < 0 \<or> cv_selected_end_hour self > 24
               then (self, Some ''End hour must be between 0 and 24'')
               else if cv_selected_end_hour self \<le> cv_selected_start_hour self
                       \<or> cv_selected_end_hour self - cv_selected_start_hour self > 4
               then (self, Some ''Time window must be between 1 and 4 hours'')
               else if cv_current_view self = High_res
               then (self\<lparr>cv_ui := cv_ui self @ [Update_view_label, Plot_kcandles]\<rparr>, None)
               else (self, None)))"

definition cv_update_high_res_view :: "candle_app \<Rightarrow> string + int \<Rightarrow> string + int \<Rightarrow> candle_app" where
  "cv_update_high_res_view self start_hour_var end_hour_var =
     (case cv_update_high_res_view_try self start_hour_var end_hour_var of
        (self', None) \<Rightarrow> self'
      | (self', Some e) \<Rightarrow> self'\<lparr>cv_ui := cv_ui self' @ [ShowError ''Invalid Time Window'' e]\<rparr>)"


subsection \<open>The charts and the daily analysis of candle.py\<close>

text \<open>
  \<^verbatim>\<open>candle.py\<close> is the older application. Its methods work on \<^verbatim>\<open>self.data\<close> directly; the
  functions below take the rows they read. \<open>cv_minute_data\<close> is the list \<^verbatim>\<open>minute_data\<close> that
  \<^verbatim>\<open>plot_high_resolution_view\<close> builds from the rows of the window; \<open>cv_plot_week_view\<close> gives
  the candles that \<^verbatim>\<open>plot_week_view\<close> draws; \<open>cv_analyze_day_patterns\<close> gives the values that
  \<^verbatim>\<open>analyze_day_patterns\<close> writes to the analysis panel (\<open>None\<close> where it returns early).
\<close>

record minute_candle =
  m_minute_index :: int
  m_first :: pyfloat
  m_last :: pyfloat
  m_max :: pyfloat
  m_min :: pyfloat
  m_time_str :: string

definition cv_minute_index :: "sample \<Rightarrow> int" where
  "cv_minute_index r = dt_hour (timestamp r) * 60 + dt_minute (timestamp r)"

fun cv_minute_loop :: "(int \<times> sample list) list \<Rightarrow> minute_candle list" where
  "cv_minute_loop [] = []"
| "cv_minute_loop ((minute, grp) # rest) =
     (if length grp > 1
      then [\<lparr>m_minute_index = minute,
             m_first = agg_first (map activity_level grp),
             m_last = agg_last (map activity_level grp),
             m_max = agg_max (map activity_level grp),
             m_min = agg_min (map activity_level grp),
             m_time_str = digit2 (minute div 60) @ '':'' @ digit2 (minute mod 60)\<rparr>]
      else [])
       @ cv_minute_loop rest"

definition cv_minute_data :: "sample list \<Rightarrow> minute_candle list" where
  "cv_minute_data window_data = cv_minute_loop (groupby cv_minute_index window_data)"

definition cv_plot_week_view :: "sample list \<Rightarrow> week_candle list" where
  "cv_plot_week_view dat =
     concat (map (\<lambda>(i, day).
         let day_data = filter (\<lambda>r. day_of_week r = day) dat
         in if length day_data = 0 then []
            else let open_val = agg_first (map activity_level day_data);
                     close_val = agg_last (map activity_level day_data);
                     high_val = agg_max (map activity_level day_data);
                     low_val = agg_min (map activity_level day_data)
                 in [\<lparr>wc_x = i, wc_open = open_val, wc_close = close_val, wc_high = high_val,
                       wc_low = low_val,
                       wc_color = (if fge close_val open_val then ''green'' else ''red'')\<rparr>])
       (List.enumerate 0 DAYS_OF_WEEK))"

record cv_day_analysis =
  cv_pattern_type :: string
  cv_pattern_desc :: string
  cv_peak_hour :: "int option"
  cv_morning_activity :: pyfloat
  cv_midday_activity :: pyfloat
  cv_evening_activity :: pyfloat
  cv_volatility :: pyfloat
  cv_volatility_desc :: string

definition cv_classify :: "pyfloat \<Rightarrow> pyfloat \<Rightarrow> pyfloat \<Rightarrow> string \<times> string" where
  "cv_classify morning midday evening =
     (if fgt morning midday \<and> fgt morning evening
      then (''Morning Peak'',
            ''Highest activity in morning hours, gradually decreasing throughout the day.'')
      else if fgt evening morning \<and> fgt evening midday
      then (''Evening Peak'',
            ''Activity builds throughout the day, reaching highest levels in evening.'')
      else if fgt midday morning \<and> fgt midday evening
      then (''Midday Peak'', ''Activity concentrated during midday hours.'')
      else if flt (fabs (fsub morning evening)) (Some 5)
              \<and> fgt morning midday
      then (''Bimodal Pattern'',
            ''Two distinct activity peaks (morning and evening) with midday lull.'')
      else (''Consistent Activity'',
            ''Relatively consistent activity levels throughout active hours.''))"

definition cv_analyze_day_patterns :: "sample list \<Rightarrow> nat \<Rightarrow> cv_day_analysis option" where
  "cv_analyze_day_patterns dat current_day =
     (let days = sort (remdups (map (\<lambda>r. dt_date (timestamp r)) dat))
      in if days = [] \<or> current_day \<ge> length days then None
         else
           let selected_date = days ! current_day;
               day_data = filter (\<lambda>r. dt_date (timestamp r) = selected_date) dat;
               hourly_data =
                 map (\<lambda>(h, g). let vs = map activity_level g in
                        \<lparr>h_hour = h, h_first = agg_first vs, h_last = agg_last vs,
                         h_max = agg_max vs, h_min = agg_min vs, h_mean = agg_mean vs,
                         h_std = agg_std vs\<rparr>)
                   (groupby (\<lambda>r. dt_hour (timestamp r)) day_data);
               peak_hour =
                 map_option (\<lambda>i. h_hour (hourly_data ! i))
                   (idxmax (zip [0..<length hourly_data] (map h_max hourly_data)));
               morning_activity = series_mean (map h_mean (filter (between 6 11) hourly_data));
               midday_activity = series_mean (map h_mean (filter (between 12 17) hourly_data));
               evening_activity = series_mean (map h_mean (filter (between 18 23) hourly_data));
               (pattern_type, pattern_desc) =
                 cv_classify morning_activity midday_activity evening_activity;
               volatility = series_mean (map h_std hourly_data);
               volatility_desc =
                 (if fgt volatility (Some 20)
                  then ''High variability in activity levels throughout the day.''
                  else if fgt volatility (Some 10)
                  then ''Moderate variability in activity levels.''
                  else ''Consistent activity levels with minimal fluctuation.'')
           in Some \<lparr>cv_pattern_type = pattern_type, cv_pattern_desc = pattern_desc,
                     cv_peak_hour = peak_hour, cv_morning_activity = morning_activity,
                     cv_midday_activity = midday_activity,
                     cv_evening_activity = evening_activity, cv_volatility = volatility,
                     cv_volatility_desc = volatility_desc\<rparr>)"

record cv_week_analysis =
  cvw_pattern_type :: string
  cvw_most_active_day :: "string option"
  cvw_least_active_day :: "string option"
  cvw_weekday_avg :: pyfloat
  cvw_weekend_avg :: pyfloat
  cvw_daily_avg :: "(string \<times> pyfloat) list"


definition cv_analyze_week_patterns :: "sample list \<Rightarrow> cv_week_analysis" where
  \<comment> \<open>\<^verbatim>\<open>analyze_week_patterns\<close> of candle.py: the values it writes to the panel. On a series
      of per-day means that are all NaN, \<open>idxmax\<close> and \<open>idxmin\<close> have no label to give.\<close>
  "cv_analyze_week_patterns dat =
     (let daily_avg =
            reindex DAYS_OF_WEEK None
              (map (\<lambda>(k, g). (k, agg_mean (map activity_level g))) (groupby day_of_week dat));
          weekday_avg =
            series_mean (map (loc daily_avg)
              [''Monday'', ''Tuesday'', ''Wednesday'', ''Thursday'', ''Friday'']);
          weekend_avg = series_mean (map (loc daily_avg) [''Saturday'', ''Sunday'']);
          most_active_day = idxmax daily_avg;
          least_active_day = idxmin daily_avg;
          pattern_type =
            (if fgt weekend_avg (fmul weekday_avg (Some (13 / 10))) then ''Weekend Warrior''
             else if fgt weekday_avg (fmul weekend_avg (Some (13 / 10))) then ''Workweek Active''
             else if flt (series_std (map snd daily_avg)) (Some 10)
             then ''Consistent Weekly Pattern''
             else ''Variable Weekly Pattern'')
      in \<lparr>cvw_pattern_type = pattern_type, cvw_most_active_day = most_active_day,
          cvw_least_active_day = least_active_day, cvw_weekday_avg = weekday_avg,
          cvw_weekend_avg = weekend_avg, cvw_daily_avg = daily_avg\<rparr>)"


definition init_candle_app :: candle_app where
  "init_candle_app = \<lparr>cv_current_view = Day, cv_selected_start_hour = 8,
                      cv_selected_end_hour = 10, cv_ui = []\<rparr>"


section \<open>The specification's wording\<close>

text \<open>
  The definitions of this section follow the sentences of the specification, not the code.
  The theorems below compare the code with them.
\<close>

definition pooled :: "frame \<Rightarrow> string \<Rightarrow> real list" where
  \<comment> \<open>the activity levels of all samples sharing a weekday label, in row order.\<close>
  "pooled f d = map activity_level (filter (\<lambda>r. day_of_week r = d) (rows f))"

definition mean_of :: "real list \<Rightarrow> real" where
  \<comment> \<open>the mean of a non-empty list.\<close>
  "mean_of xs = sum_list xs / real (length xs)"

definition weekdays :: "string list" where
  "weekdays = [''Monday'', ''Tuesday'', ''Wednesday'', ''Thursday'', ''Friday'']"

definition weekend :: "string list" where
  "weekend = [''Saturday'', ''Sunday'']"

definition spec_side_mean :: "frame \<Rightarrow> string list \<Rightarrow> real" where
  \<comment> \<open>"mean of the \<open>first\<close> values present; a day absent from the data is excluded from the
      mean, not treated as 0; if all days of the side are absent, the mean is 0".\<close>
  "spec_side_mean f side =
     (let present = filter (\<lambda>d. pooled f d \<noteq> []) side
      in if present = [] then 0 else mean_of (map (\<lambda>d. mean_of (pooled f d)) present))"

definition day_mean0 :: "frame \<Rightarrow> string \<Rightarrow> real" where
  \<comment> \<open>the per-day mean with a day without samples counted as 0.\<close>
  "day_mean0 f d = (if pooled f d = [] then 0 else mean_of (pooled f d))"

definition invalid_window :: "int \<Rightarrow> int \<Rightarrow> bool" where
  \<comment> \<open>the negation of "0 \<le> start_hour \<le> 23; 0 \<le> end_hour \<le> 24; end_hour > start_hour;
      (end_hour - start_hour) \<le> 4".\<close>
  "invalid_window start_hour end_hour =
     (start_hour < 0 \<or> start_hour > 23 \<or> end_hour < 0 \<or> end_hour > 24
        \<or> end_hour \<le> start_hour \<or> end_hour - start_hour > 4)"

definition spec_classify_day :: "real \<Rightarrow> real \<Rightarrow> real \<Rightarrow> string" where
  \<comment> \<open>the five rules of the daily classification, first match wins.\<close>
  "spec_classify_day morning midday evening =
     (if morning > midday \<and> morning > evening then ''morning_peak''
      else if evening > morning \<and> evening > midday then ''evening_peak''
      else if midday > morning \<and> midday > evening then ''midday_peak''
      else if \<bar>morning - evening\<bar> < 5 \<and> morning > midday then ''bimodal''
      else ''consistent'')"

definition spec_bucket_start :: "int \<Rightarrow> int \<Rightarrow> int" where
  \<comment> \<open>"bucket_start = floor(epoch / width_seconds) * width_seconds", the quotient taken in
      the reals, for a timestamp \<open>ts\<close>.\<close>
  "spec_bucket_start width_seconds ts =
     \<lfloor>real_of_int (epoch ts) / real_of_int width_seconds\<rfloor> * width_seconds"

definition bucket :: "int \<Rightarrow> 'a window_row_scheme list \<Rightarrow> int \<Rightarrow> 'a window_row_scheme list" where
  \<comment> \<open>the samples of a window that fall in the bucket starting at \<open>k\<close>, in row order.\<close>
  "bucket width_seconds wd k = filter (\<lambda>r. spec_bucket_start width_seconds (timestamp r) = k) wd"

definition minute_bucket :: "frame \<Rightarrow> minute_key \<Rightarrow> sample list" where
  \<comment> \<open>the samples of a series whose minute-truncated key is \<open>k\<close>.\<close>
  "minute_bucket f k = filter (\<lambda>r. strftime_minute (timestamp r) = k) (rows f)"

definition cv_bucket :: "sample list \<Rightarrow> int \<Rightarrow> sample list" where
  \<comment> \<open>the samples of a window that fall in the minute \<open>k\<close> (minutes since midnight).\<close>
  "cv_bucket wd k = filter (\<lambda>r. cv_minute_index r = k) wd"

definition pattern_name :: "string \<Rightarrow> string" where
  \<comment> \<open>the display names of \<^verbatim>\<open>PATTERN_TYPES\<close>, which candle.py uses as its labels.\<close>
  "pattern_name t =
     (if t = ''morning_peak'' then ''Morning Peak''
      else if t = ''evening_peak'' then ''Evening Peak''
      else if t = ''midday_peak'' then ''Midday Peak''
      else if t = ''bimodal'' then ''Bimodal Pattern''
      else ''Consistent Activity'')"

definition hour_values :: "sample list \<Rightarrow> int \<Rightarrow> real list" where
  \<comment> \<open>the activity levels of the samples of a day that fall in the hour \<open>h\<close>.\<close>
  "hour_values day h = map activity_level (filter (\<lambda>r. dt_hour (timestamp r) = h) day)"


definition segment_hours :: "sample list \<Rightarrow> int \<Rightarrow> int \<Rightarrow> int list" where
  \<comment> \<open>the hours from \<open>lo\<close> to \<open>hi\<close>, both included, in which the day has samples.\<close>
  "segment_hours day lo hi = filter (\<lambda>h. hour_values day h \<noteq> []) [lo..hi]"


definition spec_segment_mean :: "sample list \<Rightarrow> int \<Rightarrow> int \<Rightarrow> real" where
  \<comment> \<open>"mean of hourly \<open>mean\<close> for hours [lo, hi]; missing segments (no data in range)
      contribute 0": the mean, over the hours of the segment that have samples, of the mean
      activity level of the hour.\<close>
  "spec_segment_mean day lo hi =
     (if segment_hours day lo hi = [] then 0
      else mean_of (map (\<lambda>h. mean_of (hour_values day h)) (segment_hours day lo hi)))"


definition days_of :: "sample list \<Rightarrow> int list" where
  \<comment> \<open>the distinct calendar days of a series, ascending.\<close>
  "days_of dat = sort (remdups (map (\<lambda>r. dt_date (timestamp r)) dat))"


definition day_rows :: "sample list \<Rightarrow> nat \<Rightarrow> sample list" where
  \<comment> \<open>the samples of the day at position \<open>cur\<close> of \<open>days_of\<close>.\<close>
  "day_rows dat cur = filter (\<lambda>r. dt_date (timestamp r) = days_of dat ! cur) dat"


definition hourly_of :: "sample list \<Rightarrow> hourly_row list" where
  \<comment> \<open>the hourly table that both applications build from the samples of a day.\<close>
  "hourly_of day =
     map (\<lambda>(h, g). let vs = map activity_level g in
            \<lparr>h_hour = h, h_first = agg_first vs, h_last = agg_last vs,
             h_max = agg_max vs, h_min = agg_min vs, h_mean = agg_mean vs,
             h_std = agg_std vs\<rparr>)
       (groupby (\<lambda>r. dt_hour (timestamp r)) day)"


definition week_row :: "frame \<Rightarrow> string \<Rightarrow> weekly_row" where
  \<comment> \<open>the aggregate of one weekday label over the pooled samples: all NaN without samples.\<close>
  "week_row f d =
     (if pooled f d = [] then nan_row
      else \<lparr>w_mean = agg_mean (pooled f d), w_std = agg_std (pooled f d),
            w_max = agg_max (pooled f d), w_min = agg_min (pooled f d),
            w_count = agg_count (pooled f d)\<rparr>)"

definition daily :: "frame \<Rightarrow> (string \<times> pyfloat) list" where
  \<comment> \<open>the seven per-day means, Monday to Sunday, a day without samples counted as 0.\<close>
  "daily f = map (\<lambda>d. (d, Some (day_mean0 f d))) DAYS_OF_WEEK"

section \<open>Concrete inputs\<close>

definition ts_at :: "int \<Rightarrow> int \<Rightarrow> int \<Rightarrow> int \<Rightarrow> int" where
  \<comment> \<open>the timestamp of day \<open>d\<close> (day 0 is Thursday 1970-01-01) at \<open>h:m:s\<close>.\<close>
  "ts_at d h m s = (d * 86400 + h * 3600 + m * 60 + s) * 10 ^ 9"

definition mk_sample :: "int \<Rightarrow> real \<Rightarrow> sample" where
  "mk_sample ts v = \<lparr>timestamp = ts, activity_level = v, day_of_week = day_name ts\<rparr>"

definition frame_of :: "sample list \<Rightarrow> frame" where
  \<comment> \<open>the frame of the given rows, before any column is added.\<close>
  "frame_of rs = \<lparr>rows = rs, minute_key = None\<rparr>"

definition loaded :: "sample list \<Rightarrow> data_model" where
  \<comment> \<open>a model holding the given rows, with the index of days that \<^verbatim>\<open>load_data\<close> builds.\<close>
  "loaded rs =
     \<lparr>data = Some (frame_of rs), current_day_index = 0,
      days = sort (remdups (map (\<lambda>r. dt_date (timestamp r)) rs)),
      has_second_resolution = False\<rparr>"

definition monday_only :: "sample list" where
  \<comment> \<open>one sample, on Monday 1970-01-05, of level 10.\<close>
  "monday_only = [mk_sample (ts_at 4 9 0 0) 10]"

definition bimodal_day :: "sample list" where
  \<comment> \<open>one day with level 50 at 06:00, 30 at 12:00 and 50 at 18:00.\<close>
  "bimodal_day = [mk_sample (ts_at 0 6 0 0) 50, mk_sample (ts_at 0 12 0 0) 30, mk_sample (ts_at 0 18 0 0) 50]"

definition minute_0807 :: "sample list" where
  \<comment> \<open>one day with samples at 08:07:31 and 08:07:45, and a lone sample at 08:09:10.\<close>
  "minute_0807 =
     [mk_sample (ts_at 0 8 7 31) 3, mk_sample (ts_at 0 8 7 45) 7, mk_sample (ts_at 0 8 9 10) 5]"

definition two_mondays :: "sample list" where
  \<comment> \<open>two samples on Mondays a week apart, of levels 10 and 20.\<close>
  "two_mondays = [mk_sample (ts_at 4 9 0 0) 10, mk_sample (ts_at 11 9 0 0) 20]"

definition window_0807 :: "window_row list" where
  \<comment> \<open>the rows of \<open>minute_0807\<close> as a window, with their minutes since midnight.\<close>
  "window_0807 =
     [\<lparr>timestamp = ts_at 0 8 7 31, activity_level = 3, day_of_week = ''Thursday'',
       time_index = 29251 / 60\<rparr>,
      \<lparr>timestamp = ts_at 0 8 7 45, activity_level = 7, day_of_week = ''Thursday'',
       time_index = 29265 / 60\<rparr>,
      \<lparr>timestamp = ts_at 0 8 9 10, activity_level = 5, day_of_week = ''Thursday'',
       time_index = 29350 / 60\<rparr>]"


section \<open>Properties of the primitives\<close>

lemma groupby_keys: "map fst (groupby key rs) = sort (remdups (map key rs))"
  by (simp add: groupby_def comp_def)

lemma groupby_distinct: "distinct (map fst (groupby key rs))"
  by (simp add: groupby_keys)

lemma groupby_set:
  "set (groupby key rs) = (\<lambda>k. (k, filter (\<lambda>r. key r = k) rs)) ` key ` set rs"
  by (simp add: groupby_def)

lemma map_of_groupby:
  "map_of (groupby key rs) k =
     (if k \<in> key ` set rs then Some (filter (\<lambda>r. key r = k) rs) else None)"
proof (cases "k \<in> key ` set rs")
  case True
  then have "(k, filter (\<lambda>r. key r = k) rs) \<in> set (groupby key rs)"
    by (auto simp: groupby_set)
  then show ?thesis using True
    by (simp add: groupby_distinct)
next
  case False
  then have "k \<notin> fst ` set (groupby key rs)"
    by (force simp: groupby_set)
  then show ?thesis using False
    by (simp add: map_of_eq_None_iff)
qed

lemma filter_key_empty_iff: "filter (\<lambda>r. key r = k) rs = [] \<longleftrightarrow> k \<notin> key ` set rs"
  by (auto simp: filter_empty_conv)

lemma candle_loop_eq:
  "candle_loop W gs = map (\<lambda>(k, g). make_candle W k g) (filter (\<lambda>(k, g). length g > 1) gs)"
  by (induction W gs rule: candle_loop.induct) auto

lemma c_timestamp_make_candle [simp]: "c_timestamp (make_candle W k g) = k"
  by (simp add: make_candle_def Let_def)

lemma interval_of_floor: "interval_of W ts = spec_bucket_start W ts"
  by (simp add: interval_of_def spec_bucket_start_def floor_divide_of_int_eq)

lemma foldl_max_Max: "foldl max (x::real) ys = Max (set (x # ys))"
proof -
  have "(\<lambda>y s. max s y) = (max :: real \<Rightarrow> real \<Rightarrow> real)"
    by (intro ext) (simp add: max.commute)
  then show ?thesis
    by (simp add: foldl_conv_fold Max.set_eq_fold del: set_simps)
qed

lemma foldl_min_Min: "foldl min (x::real) ys = Min (set (x # ys))"
proof -
  have "(\<lambda>y s. min s y) = (min :: real \<Rightarrow> real \<Rightarrow> real)"
    by (intro ext) (simp add: min.commute)
  then show ?thesis
    by (simp add: foldl_conv_fold Min.set_eq_fold del: set_simps)
qed

lemma agg_max_Max: "xs \<noteq> [] \<Longrightarrow> agg_max xs = Some (Max (set xs))"
  by (cases xs) (simp_all add: agg_max_def foldl_max_Max del: set_simps)

lemma agg_min_Min: "xs \<noteq> [] \<Longrightarrow> agg_min xs = Some (Min (set xs))"
  by (cases xs) (simp_all add: agg_min_def foldl_min_Min del: set_simps)

lemma agg_first_hd: "xs \<noteq> [] \<Longrightarrow> agg_first xs = Some (hd xs)"
  by (cases xs) (simp_all add: agg_first_def)

section \<open>Interval candles\<close>

lemma interval_groups_set:
  "set (interval_groups W wd)
     = (\<lambda>k. (k, bucket W wd k)) ` (\<lambda>r. spec_bucket_start W (timestamp r)) ` set wd"
  by (simp add: interval_groups_def groupby_set bucket_def interval_of_floor)

lemma get_candle_data_set:
  "set (get_candle_data (Some wd) W)
     = {make_candle W k (bucket W wd k) | k. 1 < length (bucket W wd k)}"
proof -
  have *: "1 < length (bucket W wd k) \<Longrightarrow> k \<in> (\<lambda>r. spec_bucket_start W (timestamp r)) ` set wd" for k
  proof -
    assume "1 < length (bucket W wd k)"
    then have "bucket W wd k \<noteq> []" by auto
    then obtain r where "r \<in> set (bucket W wd k)" by (cases "bucket W wd k") auto
    then show ?thesis by (auto simp: bucket_def)
  qed
  show ?thesis
  proof (cases "wd = []")
    case True
    then show ?thesis by (simp add: get_candle_data_def bucket_def)
  next
    case False
    then show ?thesis
      using * by (auto simp: get_candle_data_def candle_loop_eq interval_groups_set)
  qed
qed

lemma get_candle_data_distinct:
  "distinct (map c_timestamp (get_candle_data (Some wd) W))"
proof -
  have "map c_timestamp (candle_loop W gs) = map fst (filter (\<lambda>(k, g). length g > 1) gs)" for gs :: "(int \<times> 'a window_row_scheme list) list"
    by (induction gs) (auto simp: candle_loop_eq)
  moreover have "distinct (map fst (interval_groups W wd))"
    by (simp add: interval_groups_def groupby_distinct)
  ultimately show ?thesis
    by (simp add: get_candle_data_def distinct_map_filter)
qed

text \<open>
  Claim C6. For a positive bucket width \<open>W\<close>, the grouping of \<^verbatim>\<open>get_candle_data\<close> puts every
  row \<open>r\<close> of the window in the group whose key is \<open>floor(epoch / W) * W\<close> for the epoch seconds
  of \<open>r\<close>, and in no group with another key. The key depends on the timestamp and on \<open>W\<close>
  only: the window's start does not enter. With \<open>W = 60\<close> the sample at 08:07:31 has the
  bucket start 08:07:00.
\<close>

theorem bucket_start_epoch_aligned:
  "(0 < W \<and> r \<in> set wd \<longrightarrow>
      (spec_bucket_start W (timestamp r), bucket W wd (spec_bucket_start W (timestamp r)))
           \<in> set (interval_groups W wd)
      \<and> r \<in> set (bucket W wd (spec_bucket_start W (timestamp r)))
      \<and> (\<forall>k g. (k, g) \<in> set (interval_groups W wd) \<and> r \<in> set g
                  \<longrightarrow> k = spec_bucket_start W (timestamp r)))
   \<and> spec_bucket_start 60 (ts_at 0 8 7 31) = epoch (ts_at 0 8 7 0)"
proof -
  have "spec_bucket_start 60 (ts_at 0 8 7 31) = epoch (ts_at 0 8 7 0)"
    by (simp add: interval_of_floor[symmetric] interval_of_def ts_at_def epoch_def)
  then show ?thesis
    by (auto simp: interval_groups_set bucket_def)
qed

lemma interval_candles:
  assumes "0 < W"
  shows "((\<exists>c \<in> set (get_candle_data (Some wd) W). c_timestamp c = k)
            \<longleftrightarrow> 2 \<le> length (bucket W wd k))
         \<and> (\<forall>c \<in> set (get_candle_data (Some wd) W). c_timestamp c = k \<longrightarrow>
               c_first c = Some (activity_level (hd (bucket W wd k)))
             \<and> c_last c = Some (activity_level (last (bucket W wd k)))
             \<and> c_max c = Some (Max (activity_level ` set (bucket W wd k)))
             \<and> c_min c = Some (Min (activity_level ` set (bucket W wd k))))
         \<and> distinct (map c_timestamp (get_candle_data (Some wd) W))"
proof -
  have a: "(\<exists>c \<in> set (get_candle_data (Some wd) W). c_timestamp c = k)
            \<longleftrightarrow> 2 \<le> length (bucket W wd k)"
  proof
    assume "\<exists>c \<in> set (get_candle_data (Some wd) W). c_timestamp c = k"
    then show "2 \<le> length (bucket W wd k)" by (auto simp: get_candle_data_set)
  next
    assume "2 \<le> length (bucket W wd k)"
    then have "make_candle W k (bucket W wd k) \<in> set (get_candle_data (Some wd) W)"
      by (auto simp: get_candle_data_set)
    then show "\<exists>c \<in> set (get_candle_data (Some wd) W). c_timestamp c = k"
      by (rule bexI[rotated]) simp
  qed
  have b: "c_first c = Some (activity_level (hd (bucket W wd k)))
             \<and> c_last c = Some (activity_level (last (bucket W wd k)))
             \<and> c_max c = Some (Max (activity_level ` set (bucket W wd k)))
             \<and> c_min c = Some (Min (activity_level ` set (bucket W wd k)))"
    if "c \<in> set (get_candle_data (Some wd) W)" "c_timestamp c = k" for c
  proof -
    from that have c: "c = make_candle W k (bucket W wd k)" and l: "1 < length (bucket W wd k)"
      by (auto simp: get_candle_data_set)
    from l have ne: "map activity_level (bucket W wd k) \<noteq> []" by auto
    show ?thesis
      using ne by (simp add: c make_candle_def Let_def agg_first_hd agg_last_def agg_max_Max
          agg_min_Min hd_map last_map)
  qed
  show ?thesis using a b get_candle_data_distinct by blast
qed


lemma cv_minute_loop_eq:
  "cv_minute_loop gs =
     map (\<lambda>(minute, grp). \<lparr>m_minute_index = minute,
             m_first = agg_first (map activity_level grp),
             m_last = agg_last (map activity_level grp),
             m_max = agg_max (map activity_level grp),
             m_min = agg_min (map activity_level grp),
             m_time_str = digit2 (minute div 60) @ '':'' @ digit2 (minute mod 60)\<rparr>)
       (filter (\<lambda>(k, g). length g > 1) gs)"
  by (induction gs rule: cv_minute_loop.induct) auto

lemma cv_minute_data_set:
  "set (cv_minute_data wd) =
     {\<lparr>m_minute_index = k,
        m_first = agg_first (map activity_level (cv_bucket wd k)),
        m_last = agg_last (map activity_level (cv_bucket wd k)),
        m_max = agg_max (map activity_level (cv_bucket wd k)),
        m_min = agg_min (map activity_level (cv_bucket wd k)),
        m_time_str = digit2 (k div 60) @ '':'' @ digit2 (k mod 60)\<rparr> | k.
      1 < length (cv_bucket wd k)}"
proof -
  have *: "1 < length (cv_bucket wd k) \<Longrightarrow> k \<in> cv_minute_index ` set wd" for k
  proof -
    assume "1 < length (cv_bucket wd k)"
    then have "cv_bucket wd k \<noteq> []" by auto
    then have "hd (cv_bucket wd k) \<in> set (cv_bucket wd k)" by (rule hd_in_set)
    then have "hd (cv_bucket wd k) \<in> set wd" "cv_minute_index (hd (cv_bucket wd k)) = k"
      by (simp_all add: cv_bucket_def)
    then show ?thesis by (metis imageI)
  qed
  show ?thesis
    using * by (auto simp: cv_minute_data_def cv_minute_loop_eq groupby_set cv_bucket_def)
qed

lemma cv_minute_candles:
  "((\<exists>c \<in> set (cv_minute_data wd). m_minute_index c = k) \<longleftrightarrow> 2 \<le> length (cv_bucket wd k))
   \<and> (\<forall>c \<in> set (cv_minute_data wd). m_minute_index c = k \<longrightarrow>
         m_first c = Some (activity_level (hd (cv_bucket wd k)))
       \<and> m_last c = Some (activity_level (last (cv_bucket wd k)))
       \<and> m_max c = Some (Max (activity_level ` set (cv_bucket wd k)))
       \<and> m_min c = Some (Min (activity_level ` set (cv_bucket wd k))))"
proof -
  have a: "(\<exists>c \<in> set (cv_minute_data wd). m_minute_index c = k) \<longleftrightarrow> 2 \<le> length (cv_bucket wd k)"
    unfolding cv_minute_data_set by force
  have b: "m_first c = Some (activity_level (hd (cv_bucket wd k)))
       \<and> m_last c = Some (activity_level (last (cv_bucket wd k)))
       \<and> m_max c = Some (Max (activity_level ` set (cv_bucket wd k)))
       \<and> m_min c = Some (Min (activity_level ` set (cv_bucket wd k)))"
    if "c \<in> set (cv_minute_data wd)" "m_minute_index c = k" for c
  proof -
    from that have l: "1 < length (cv_bucket wd k)"
      and c: "m_first c = agg_first (map activity_level (cv_bucket wd k))"
        "m_last c = agg_last (map activity_level (cv_bucket wd k))"
        "m_max c = agg_max (map activity_level (cv_bucket wd k))"
        "m_min c = agg_min (map activity_level (cv_bucket wd k))"
      unfolding cv_minute_data_set by auto
    from l have ne: "map activity_level (cv_bucket wd k) \<noteq> []" by auto
    show ?thesis
      using ne by (simp add: c agg_first_hd agg_last_def agg_max_Max agg_min_Min hd_map last_map)
  qed
  from a b show ?thesis by blast
qed

text \<open>
  Claim C7. For a positive bucket width, \<^verbatim>\<open>get_candle_data\<close> returns a candle for the bucket
  starting at \<open>k\<close> if and only if that bucket holds at least two samples of the window; a
  bucket with fewer samples gives no candle and no error (the function returns its list).
  The candle of a bucket has \<open>first\<close> and \<open>last\<close> from the first and the last sample of the
  bucket in row order, \<open>max\<close> and \<open>min\<close> the greatest and the least activity level of the
  bucket, and no bucket has two candles. The per-minute candles of \<^verbatim>\<open>candle.py\<close> follow the
  same rule, with the minute of the day as the bucket.
\<close>

theorem candle_iff_two_samples:
  assumes "0 < W"
  shows "((\<exists>c \<in> set (get_candle_data (Some wd) W). c_timestamp c = k)
            \<longleftrightarrow> 2 \<le> length (bucket W wd k))
         \<and> (\<forall>c \<in> set (get_candle_data (Some wd) W). c_timestamp c = k \<longrightarrow>
               c_first c = Some (activity_level (hd (bucket W wd k)))
             \<and> c_last c = Some (activity_level (last (bucket W wd k)))
             \<and> c_max c = Some (Max (activity_level ` set (bucket W wd k)))
             \<and> c_min c = Some (Min (activity_level ` set (bucket W wd k))))
         \<and> distinct (map c_timestamp (get_candle_data (Some wd) W))
         \<and> ((\<exists>c \<in> set (cv_minute_data cwd). m_minute_index c = k')
               \<longleftrightarrow> 2 \<le> length (cv_bucket cwd k'))
         \<and> (\<forall>c \<in> set (cv_minute_data cwd). m_minute_index c = k' \<longrightarrow>
               m_first c = Some (activity_level (hd (cv_bucket cwd k')))
             \<and> m_last c = Some (activity_level (last (cv_bucket cwd k')))
             \<and> m_max c = Some (Max (activity_level ` set (cv_bucket cwd k')))
             \<and> m_min c = Some (Min (activity_level ` set (cv_bucket cwd k'))))"
  using interval_candles[OF assms, of wd k] cv_minute_candles[of cwd k'] by blast


section \<open>Resolution detection\<close>

lemma filter_zip_map_length:
  "length (filter (\<lambda>p. snd p = k) (zip rs (map h rs))) = length (filter (\<lambda>r. h r = k) rs)"
  by (induction rs) auto

lemma groupby_sizes_ex:
  "list_ex (\<lambda>(k, n). n > 1) (map (\<lambda>(k, g). (k, length g)) (groupby key rs))
     \<longleftrightarrow> (\<exists>k. 1 < length (filter (\<lambda>r. key r = k) rs))"
proof -
  have "(\<exists>k. 1 < length (filter (\<lambda>r. key r = k) rs))
        \<longleftrightarrow> (\<exists>k \<in> key ` set rs. 1 < length (filter (\<lambda>r. key r = k) rs))"
  proof
    assume "\<exists>k. 1 < length (filter (\<lambda>r. key r = k) rs)"
    then obtain k where k: "1 < length (filter (\<lambda>r. key r = k) rs)" ..
    then have "filter (\<lambda>r. key r = k) rs \<noteq> []" by auto
    then have "k \<in> key ` set rs" by (simp add: filter_key_empty_iff)
    with k show "\<exists>k \<in> key ` set rs. 1 < length (filter (\<lambda>r. key r = k) rs)" by blast
  qed blast
  then show ?thesis
    by (simp add: list_ex_iff groupby_set split_def)
qed

lemma detect_small:
  assumes "length (rows f) \<le> 1000"
  shows "detect_data_resolution self f draw =
           (self\<lparr>has_second_resolution := (\<exists>k. 1 < length (minute_bucket f k))\<rparr>,
            f\<lparr>minute_key := Some (map (\<lambda>r. strftime_minute (timestamp r)) (rows f))\<rparr>)"
proof -
  have "list_ex (\<lambda>(k, n). n > 1) (map (\<lambda>(k, g). (k, length g))
           (groupby snd (zip (rows f) (map (\<lambda>r. strftime_minute (timestamp r)) (rows f)))))
        \<longleftrightarrow> (\<exists>k. 1 < length (minute_bucket f k))"
    by (simp only: groupby_sizes_ex filter_zip_map_length minute_bucket_def)
  then show ?thesis
    using assms by (simp add: detect_data_resolution_def Let_def min_def)
qed

lemma detect_large:
  assumes "length (rows f) > 1000"
  shows "snd (detect_data_resolution self f draw) = f"
  using assms by (simp add: detect_data_resolution_def Let_def min_def)



section \<open>The week view and the weekly analysis\<close>

lemma distinct_DAYS: "distinct DAYS_OF_WEEK"
  by (simp add: DAYS_OF_WEEK_def)

lemma map_of_tab: "map_of (map (\<lambda>k. (k, g k)) ks) x = (if x \<in> set ks then Some (g x) else None)"
  by (induction ks) auto

lemma get_weekly_data_closed:
  assumes "data self = Some f"
  shows "get_weekly_data self = Some (map (\<lambda>d. (d, week_row f d)) DAYS_OF_WEEK)"
proof -
  let ?h = "\<lambda>g. let vs = map activity_level g in
              \<lparr>w_mean = agg_mean vs, w_std = agg_std vs, w_max = agg_max vs,
               w_min = agg_min vs, w_count = agg_count vs\<rparr>"
  have m: "map (\<lambda>(k, g). let vs = map activity_level g in
                  (k, \<lparr>w_mean = agg_mean vs, w_std = agg_std vs, w_max = agg_max vs,
                       w_min = agg_min vs, w_count = agg_count vs\<rparr>)) gs
           = map (\<lambda>(k, g). (k, ?h g)) gs" for gs :: "(string \<times> sample list) list"
    by (simp add: Let_def)
  have "(case map_of (map (\<lambda>(k, g). (k, ?h g)) (groupby day_of_week (rows f))) d of
           None \<Rightarrow> nan_row | Some v \<Rightarrow> v) = week_row f d" for d
    by (simp add: map_of_map map_of_groupby week_row_def pooled_def filter_key_empty_iff Let_def)
  then show ?thesis
    using assms unfolding get_weekly_data_def reindex_def m by simp
qed

lemma loc_tab: "x \<in> set ks \<Longrightarrow> loc (map (\<lambda>k. (k, g k)) ks) x = g x"
  by (simp add: loc_def map_of_tab)

lemma plot_week_view_closed:
  "plot_week_view (Some (map (\<lambda>d. (d, g d)) DAYS_OF_WEEK))
     = map (\<lambda>(i, day). \<lparr>wc_x = i, wc_open = w_mean (g day), wc_close = w_mean (g day),
                           wc_high = w_max (g day), wc_low = w_min (g day),
                           wc_color = (if i \<ge> 5 then ''red'' else ''green'')\<rparr>)
         (List.enumerate 0 DAYS_OF_WEEK)"
proof -
  have ne: "DAYS_OF_WEEK \<noteq> []" by (simp add: DAYS_OF_WEEK_def)
  have c: "concat (map (\<lambda>x. if P x then [] else [h x]) xs) = map h xs"
    if "\<forall>x \<in> set xs. \<not> P x" for P and h :: "nat \<times> string \<Rightarrow> week_candle" and xs
    using that by (induction xs) auto
  have in_D: "\<forall>x \<in> set (List.enumerate 0 DAYS_OF_WEEK). snd x \<in> set DAYS_OF_WEEK"
    by (auto simp: in_set_enumerate_eq)
  have "concat (map (\<lambda>(i, day).
                  if day \<notin> set (map fst (map (\<lambda>d. (d, g d)) DAYS_OF_WEEK)) then []
                  else let day_stats = loc (map (\<lambda>d. (d, g d)) DAYS_OF_WEEK) day
                       in [\<lparr>wc_x = i, wc_open = w_mean day_stats, wc_close = w_mean day_stats,
                             wc_high = w_max day_stats, wc_low = w_min day_stats,
                             wc_color = (if i \<ge> 5 then ''red'' else ''green'')\<rparr>])
                (List.enumerate 0 DAYS_OF_WEEK))
        = map (\<lambda>(i, day). \<lparr>wc_x = i, wc_open = w_mean (g day), wc_close = w_mean (g day),
                           wc_high = w_max (g day), wc_low = w_min (g day),
                           wc_color = (if i \<ge> 5 then ''red'' else ''green'')\<rparr>)
         (List.enumerate 0 DAYS_OF_WEEK)"
    using in_D by (intro trans[OF _ c[where P = "\<lambda>x. False"]] arg_cong[where f = concat] map_cong)
       (auto simp: loc_tab comp_def Let_def)
  then show ?thesis
    using ne by (simp add: plot_week_view_def)
qed

lemma length_DAYS: "length DAYS_OF_WEEK = 7"
  by (simp add: DAYS_OF_WEEK_def)

lemma week_row_fields:
  "w_mean (week_row f d) = (if pooled f d = [] then None else Some (mean_of (pooled f d)))"
  "w_max (week_row f d) = (if pooled f d = [] then None else Some (Max (set (pooled f d))))"
  "w_min (week_row f d) = (if pooled f d = [] then None else Some (Min (set (pooled f d))))"
  by (simp_all add: week_row_def nan_row_def agg_mean_def mean_of_def agg_max_Max agg_min_Min)

text \<open>
  Claim C8, for the week view of \<^verbatim>\<open>KinetiCandles_v3.py\<close>. Once data is loaded, the weekly
  table of \<^verbatim>\<open>get_weekly_data\<close> has exactly the seven weekday rows, Monday to Sunday, and
  \<^verbatim>\<open>ChartView.plot_week_view\<close> draws seven candles in that order. The candle of a weekday has
  open equal to close; with pooled samples for that label both are their mean, and high and
  low are their greatest and least value; without samples all of them are NaN.
\<close>

theorem week_view_candles:
  assumes "data self = Some f"
  shows "\<exists>wd. get_weekly_data self = Some wd \<and> map fst wd = DAYS_OF_WEEK
           \<and> length (plot_week_view (Some wd)) = 7
           \<and> (\<forall>i < 7. let c = plot_week_view (Some wd) ! i; vs = pooled f (DAYS_OF_WEEK ! i)
                       in wc_x c = i \<and> wc_open c = wc_close c
                          \<and> (if vs = [] then wc_open c = None \<and> wc_high c = None \<and> wc_low c = None
                              else wc_open c = Some (mean_of vs) \<and> wc_high c = Some (Max (set vs))
                                   \<and> wc_low c = Some (Min (set vs))))"
proof -
  let ?wd = "map (\<lambda>d. (d, week_row f d)) DAYS_OF_WEEK"
  have 1: "get_weekly_data self = Some ?wd"
    using assms by (rule get_weekly_data_closed)
  have 2: "map fst ?wd = DAYS_OF_WEEK"
    by (simp add: comp_def)
  have 3: "length (plot_week_view (Some ?wd)) = 7"
    by (simp add: plot_week_view_closed length_DAYS)
  have 4: "let c = plot_week_view (Some ?wd) ! i; vs = pooled f (DAYS_OF_WEEK ! i)
           in wc_x c = i \<and> wc_open c = wc_close c
              \<and> (if vs = [] then wc_open c = None \<and> wc_high c = None \<and> wc_low c = None
                  else wc_open c = Some (mean_of vs) \<and> wc_high c = Some (Max (set vs))
                       \<and> wc_low c = Some (Min (set vs)))" if "i < 7" for i
    using that
    by (simp add: plot_week_view_closed length_DAYS nth_enumerate_eq week_row_fields Let_def)
  from 1 2 3 4 show ?thesis by blast
qed

lemma fillna_week_row: "fillna 0 (w_mean (week_row f d)) = Some (day_mean0 f d)"
  by (simp add: week_row_fields fillna_def day_mean0_def)

lemma series_mean_Some: "xs \<noteq> [] \<Longrightarrow> series_mean (map Some xs) = Some (mean_of xs)"
  by (simp add: series_mean_def dropna_def agg_mean_def mean_of_def map_filter_def comp_def)

lemma daily_eq: "map (\<lambda>(d, r). (d, fillna 0 (w_mean r))) (map (\<lambda>d. (d, week_row f d)) DAYS_OF_WEEK) = daily f"
  by (simp add: daily_def fillna_week_row comp_def)

lemma analyze_week_closed:
  assumes "data self = Some f"
  shows "\<exists>r. analyze_week_patterns self = Some r
           \<and> most_active_day r = idxmax (daily f)
           \<and> least_active_day r = idxmin (daily f)
           \<and> weekday_avg r = Some (sum_list (map (day_mean0 f) weekdays) / 5)
           \<and> weekend_avg r = Some (sum_list (map (day_mean0 f) weekend) / 2)
           \<and> daily_averages r = daily f"
proof -
  have wd: "get_weekly_data self = Some (map (\<lambda>d. (d, week_row f d)) DAYS_OF_WEEK)"
    using assms by (rule get_weekly_data_closed)
  have ne: "map (\<lambda>d. (d, week_row f d)) DAYS_OF_WEEK \<noteq> []"
    by (simp add: DAYS_OF_WEEK_def)
  have idx5: "filter (\<lambda>i. i < 5) [0..<length DAYS_OF_WEEK] = [0, 1, 2, 3, 4]"
    and idx2: "filter (\<lambda>i. i \<ge> 5) [0..<length DAYS_OF_WEEK] = [5, 6]"
    by (simp_all add: length_DAYS upt_rec)
  have fst_daily: "set (map fst (daily f)) = set DAYS_OF_WEEK"
    by (simp add: daily_def comp_def)
  have wdays: "map (\<lambda>i. DAYS_OF_WEEK ! i)
                 (filter (\<lambda>i. DAYS_OF_WEEK ! i \<in> set (map fst (daily f))) [0, 1, 2, 3, 4]) = weekdays"
    unfolding fst_daily by (simp add: DAYS_OF_WEEK_def weekdays_def)
  have wend: "map (\<lambda>i. DAYS_OF_WEEK ! i)
                 (filter (\<lambda>i. DAYS_OF_WEEK ! i \<in> set (map fst (daily f))) [5, 6]) = weekend"
    unfolding fst_daily by (simp add: DAYS_OF_WEEK_def weekend_def)
  have sub: "set weekdays \<subseteq> set DAYS_OF_WEEK" "set weekend \<subseteq> set DAYS_OF_WEEK"
    by (simp_all add: weekdays_def weekend_def DAYS_OF_WEEK_def)
  have locd: "loc (daily f) d = Some (day_mean0 f d)" if "d \<in> set DAYS_OF_WEEK" for d
    unfolding daily_def using that by (rule loc_tab)
  have loc1: "map (loc (daily f)) weekdays = map Some (map (day_mean0 f) weekdays)"
    using sub(1) by (auto simp: locd)
  have loc2: "map (loc (daily f)) weekend = map Some (map (day_mean0 f) weekend)"
    using sub(2) by (auto simp: locd)
  have m1: "series_mean (map (loc (daily f)) weekdays) = Some (sum_list (map (day_mean0 f) weekdays) / 5)"
    unfolding loc1 by (subst series_mean_Some) (simp_all add: weekdays_def mean_of_def)
  have m2: "series_mean (map (loc (daily f)) weekend) = Some (sum_list (map (day_mean0 f) weekend) / 2)"
    unfolding loc2 by (subst series_mean_Some) (simp_all add: weekend_def mean_of_def)
  have nonan: "\<not> list_all (\<lambda>(d, c). c = None) (daily f)"
    by (simp add: daily_def DAYS_OF_WEEK_def)
  have dne: "daily f \<noteq> []" by (simp add: daily_def DAYS_OF_WEEK_def)
  have w1: "weekdays \<noteq> []" and w2: "weekend \<noteq> []" by (simp_all add: weekdays_def weekend_def)
  show ?thesis
    unfolding analyze_week_patterns_def wd
    apply (simp only: option.case ne if_False Let_def daily_eq idx5 idx2 wdays wend w1 w2 m1 m2
        nonan dne not_False_eq_True if_True simp_thms)
    apply simp
    done
qed

section \<open>The daily analysis\<close>

lemma classify_Some:
  "(if fgt (Some m) (Some d) \<and> fgt (Some m) (Some e) then ''morning_peak''
    else if fgt (Some e) (Some m) \<and> fgt (Some e) (Some d) then ''evening_peak''
    else if fgt (Some d) (Some m) \<and> fgt (Some d) (Some e) then ''midday_peak''
    else if flt (fabs (fsub (Some m) (Some e))) (Some 5) \<and> fgt (Some m) (Some d)
    then ''bimodal'' else ''consistent'') = spec_classify_day m d e"
  by (simp add: fgt_def flt_def fabs_def fsub_def spec_classify_day_def)

lemma cv_classify_Some:
  "fst (cv_classify (Some m) (Some d) (Some e)) = pattern_name (spec_classify_day m d e)"
  by (simp add: cv_classify_def fgt_def flt_def fabs_def fsub_def spec_classify_day_def
      pattern_name_def)

lemma segment_keys:
  "filter (\<lambda>k. lo \<le> k \<and> k \<le> hi) (sort (remdups (map key rs)))
     = filter (\<lambda>h. h \<in> key ` set rs) [lo..hi]"
proof (rule sorted_distinct_set_unique)
  show "sorted (filter (\<lambda>k. lo \<le> k \<and> k \<le> hi) (sort (remdups (map key rs))))"
    by (simp add: sorted_wrt_filter)
  show "distinct (filter (\<lambda>k. lo \<le> k \<and> k \<le> hi) (sort (remdups (map key rs))))"
    by simp
  show "sorted (filter (\<lambda>h. h \<in> key ` set rs) [lo..hi])"
    by (simp add: sorted_wrt_filter)
  show "distinct (filter (\<lambda>h. h \<in> key ` set rs) [lo..hi])"
    by simp
  show "set (filter (\<lambda>k. lo \<le> k \<and> k \<le> hi) (sort (remdups (map key rs))))
          = set (filter (\<lambda>h. h \<in> key ` set rs) [lo..hi])"
    by auto
qed


lemma hourly_of_rows:
  "hourly_of day =
     map (\<lambda>k. \<lparr>h_hour = k, h_first = agg_first (hour_values day k),
                h_last = agg_last (hour_values day k), h_max = agg_max (hour_values day k),
                h_min = agg_min (hour_values day k), h_mean = agg_mean (hour_values day k),
                h_std = agg_std (hour_values day k)\<rparr>)
       (sort (remdups (map (\<lambda>r. dt_hour (timestamp r)) day)))"
  by (simp add: hourly_of_def groupby_def hour_values_def Let_def comp_def)


lemma segment_cells:
  "map h_mean (filter (between lo hi) (hourly_of day))
     = map (\<lambda>h. Some (mean_of (hour_values day h))) (segment_hours day lo hi)"
proof -
  let ?keys = "sort (remdups (map (\<lambda>r. dt_hour (timestamp r)) day))"
  have ne: "hour_values day h \<noteq> [] \<longleftrightarrow> h \<in> (\<lambda>r. dt_hour (timestamp r)) ` set day" for h
    by (auto simp: hour_values_def filter_empty_conv)
  have "map h_mean (filter (between lo hi) (hourly_of day))
          = map (\<lambda>k. agg_mean (hour_values day k)) (filter (\<lambda>k. lo \<le> k \<and> k \<le> hi) ?keys)"
    unfolding hourly_of_rows by (simp add: filter_map comp_def between_def)
  also have "filter (\<lambda>k. lo \<le> k \<and> k \<le> hi) ?keys = segment_hours day lo hi"
    unfolding segment_keys segment_hours_def by (simp add: ne)
  also have "map (\<lambda>k. agg_mean (hour_values day k)) (segment_hours day lo hi)
          = map (\<lambda>h. Some (mean_of (hour_values day h))) (segment_hours day lo hi)"
    by (rule map_cong) (auto simp: segment_hours_def agg_mean_def mean_of_def)
  finally show ?thesis .
qed


lemma series_mean_Some_map: "xs \<noteq> [] \<Longrightarrow> series_mean (map (\<lambda>x. Some (g x)) xs) = Some (mean_of (map g xs))"
  using series_mean_Some[of "map g xs"] by (simp add: comp_def)


lemma v3_segment:
  "(if length (filter (between lo hi) (hourly_of day)) > 0
    then series_mean (map h_mean (filter (between lo hi) (hourly_of day))) else Some 0)
   = Some (spec_segment_mean day lo hi)"
proof -
  have l: "length (filter (between lo hi) (hourly_of day)) = length (segment_hours day lo hi)"
    using arg_cong[OF segment_cells[of lo hi day], of length] by simp
  show ?thesis
    unfolding l segment_cells
    by (simp add: spec_segment_mean_def series_mean_Some_map)
qed


lemma cv_segment:
  "series_mean (map h_mean (filter (between lo hi) (hourly_of day)))
   = (if segment_hours day lo hi = [] then None else Some (spec_segment_mean day lo hi))"
proof (cases "segment_hours day lo hi = []")
  case True
  then show ?thesis
    unfolding segment_cells by (simp add: series_mean_def dropna_def agg_mean_def map_filter_simps)
next
  case False
  then show ?thesis
    unfolding segment_cells by (simp add: spec_segment_mean_def series_mean_Some_map)
qed


lemma hourly_of_nonempty:
  assumes "day \<noteq> []"
  shows "hourly_of day \<noteq> []"
proof -
  have "length (hourly_of day) = length (remdups (map (\<lambda>r. dt_hour (timestamp r)) day))"
    unfolding hourly_of_rows by simp
  moreover have "remdups (map (\<lambda>r. dt_hour (timestamp r)) day) \<noteq> []"
    using assms by simp
  ultimately show ?thesis by auto
qed


lemma get_daily_hourly_of:
  "get_data_for_current_day self = Some day \<Longrightarrow> day \<noteq> [] \<Longrightarrow>
     get_daily_data_grouped_by_hour self = Some (hourly_of day)"
  by (simp add: get_daily_data_grouped_by_hour_def hourly_of_def)


lemma v3_day_pattern_from_data:
  assumes "get_data_for_current_day self = Some day" and "day \<noteq> []"
  shows "\<exists>r. analyze_day_patterns self = Some r
           \<and> morning_activity r = Some (spec_segment_mean day 6 11)
           \<and> midday_activity r = Some (spec_segment_mean day 12 17)
           \<and> evening_activity r = Some (spec_segment_mean day 18 23)
           \<and> pattern_type r = spec_classify_day (spec_segment_mean day 6 11)
                 (spec_segment_mean day 12 17) (spec_segment_mean day 18 23)"
proof -
  have h: "get_daily_data_grouped_by_hour self = Some (hourly_of day)"
    using assms by (rule get_daily_hourly_of)
  have ne: "length (hourly_of day) \<noteq> 0"
    using hourly_of_nonempty[OF assms(2)] by simp
  show ?thesis
    unfolding analyze_day_patterns_def h option.case if_not_P[OF ne] Let_def v3_segment classify_Some
    by simp
qed


lemma cv_day_pattern_from_data:
  assumes "cur < length (days_of dat)"
  shows "\<exists>r. cv_analyze_day_patterns dat cur = Some r
           \<and> cv_morning_activity r
               = (if segment_hours (day_rows dat cur) 6 11 = [] then None
                  else Some (spec_segment_mean (day_rows dat cur) 6 11))
           \<and> cv_midday_activity r
               = (if segment_hours (day_rows dat cur) 12 17 = [] then None
                  else Some (spec_segment_mean (day_rows dat cur) 12 17))
           \<and> cv_evening_activity r
               = (if segment_hours (day_rows dat cur) 18 23 = [] then None
                  else Some (spec_segment_mean (day_rows dat cur) 18 23))
           \<and> cv_pattern_type r
               = fst (cv_classify (cv_morning_activity r) (cv_midday_activity r)
                        (cv_evening_activity r))"
proof -
  have ok: "\<not> (days_of dat = [] \<or> cur \<ge> length (days_of dat))"
    using assms by auto
  have h: "map (\<lambda>(h, g). \<lparr>h_hour = h, h_first = agg_first (map activity_level g),
                          h_last = agg_last (map activity_level g),
                          h_max = agg_max (map activity_level g),
                          h_min = agg_min (map activity_level g),
                          h_mean = agg_mean (map activity_level g),
                          h_std = agg_std (map activity_level g)\<rparr>)
             (groupby (\<lambda>r. dt_hour (timestamp r)) (day_rows dat cur))
           = hourly_of (day_rows dat cur)"
    by (simp add: hourly_of_def Let_def)
  have d: "sort (remdups (map (\<lambda>r. dt_date (timestamp r)) dat)) = days_of dat"
    by (simp add: days_of_def)
  have f: "filter (\<lambda>r. dt_date (timestamp r) = days_of dat ! cur) dat = day_rows dat cur"
    by (simp add: day_rows_def)
  show ?thesis
    unfolding cv_analyze_day_patterns_def Let_def
    apply (simp only: d if_not_P[OF ok] f h cv_segment)
    apply (simp add: split_def)
    done
qed


text \<open>
  Claim C4. For the samples \<open>day\<close> of the selected day, \<^verbatim>\<open>analyze_day_patterns\<close> returns the
  three segment means of the hourly means of \<open>day\<close> (hours 6 to 11, 12 to 17 and 18 to 23, a
  segment without samples being 0) and the pattern type that the five rules give for these
  three means, in their order, first match winning, with strict comparisons. When the three
  means are 50, 30 and 50 the pattern type is "bimodal". The analysis of \<^verbatim>\<open>candle.py\<close> gives
  the same three means and the display name of that pattern type when every segment has
  samples.
\<close>


theorem day_pattern_priority:
  "(get_data_for_current_day self = Some day \<and> day \<noteq> [] \<longrightarrow>
      (\<exists>r. analyze_day_patterns self = Some r
           \<and> morning_activity r = Some (spec_segment_mean day 6 11)
           \<and> midday_activity r = Some (spec_segment_mean day 12 17)
           \<and> evening_activity r = Some (spec_segment_mean day 18 23)
           \<and> pattern_type r = spec_classify_day (spec_segment_mean day 6 11)
                 (spec_segment_mean day 12 17) (spec_segment_mean day 18 23)
           \<and> (spec_segment_mean day 6 11 = 50 \<and> spec_segment_mean day 12 17 = 30
                \<and> spec_segment_mean day 18 23 = 50 \<longrightarrow> pattern_type r = ''bimodal'')))
   \<and> (cur < length (days_of dat) \<and> segment_hours (day_rows dat cur) 6 11 \<noteq> []
        \<and> segment_hours (day_rows dat cur) 12 17 \<noteq> []
        \<and> segment_hours (day_rows dat cur) 18 23 \<noteq> [] \<longrightarrow>
      (\<exists>r'. cv_analyze_day_patterns dat cur = Some r'
           \<and> cv_morning_activity r' = Some (spec_segment_mean (day_rows dat cur) 6 11)
           \<and> cv_midday_activity r' = Some (spec_segment_mean (day_rows dat cur) 12 17)
           \<and> cv_evening_activity r' = Some (spec_segment_mean (day_rows dat cur) 18 23)
           \<and> cv_pattern_type r' = pattern_name (spec_classify_day
                 (spec_segment_mean (day_rows dat cur) 6 11)
                 (spec_segment_mean (day_rows dat cur) 12 17)
                 (spec_segment_mean (day_rows dat cur) 18 23))))"
proof -
  have b: "spec_classify_day 50 30 50 = ''bimodal''"
    by (simp add: spec_classify_day_def)
  have 1: "\<exists>r. analyze_day_patterns self = Some r
           \<and> morning_activity r = Some (spec_segment_mean day 6 11)
           \<and> midday_activity r = Some (spec_segment_mean day 12 17)
           \<and> evening_activity r = Some (spec_segment_mean day 18 23)
           \<and> pattern_type r = spec_classify_day (spec_segment_mean day 6 11)
                 (spec_segment_mean day 12 17) (spec_segment_mean day 18 23)
           \<and> (spec_segment_mean day 6 11 = 50 \<and> spec_segment_mean day 12 17 = 30
                \<and> spec_segment_mean day 18 23 = 50 \<longrightarrow> pattern_type r = ''bimodal'')"
    if "get_data_for_current_day self = Some day" "day \<noteq> []"
    using v3_day_pattern_from_data[OF that] b by auto
  have 2: "\<exists>r'. cv_analyze_day_patterns dat cur = Some r'
           \<and> cv_morning_activity r' = Some (spec_segment_mean (day_rows dat cur) 6 11)
           \<and> cv_midday_activity r' = Some (spec_segment_mean (day_rows dat cur) 12 17)
           \<and> cv_evening_activity r' = Some (spec_segment_mean (day_rows dat cur) 18 23)
           \<and> cv_pattern_type r' = pattern_name (spec_classify_day
                 (spec_segment_mean (day_rows dat cur) 6 11)
                 (spec_segment_mean (day_rows dat cur) 12 17)
                 (spec_segment_mean (day_rows dat cur) 18 23))"
    if c: "cur < length (days_of dat)" and sg: "segment_hours (day_rows dat cur) 6 11 \<noteq> []"
      "segment_hours (day_rows dat cur) 12 17 \<noteq> []" "segment_hours (day_rows dat cur) 18 23 \<noteq> []"
  proof -
    from cv_day_pattern_from_data[OF c] obtain r where
      r: "cv_analyze_day_patterns dat cur = Some r"
      "cv_morning_activity r = Some (spec_segment_mean (day_rows dat cur) 6 11)"
      "cv_midday_activity r = Some (spec_segment_mean (day_rows dat cur) 12 17)"
      "cv_evening_activity r = Some (spec_segment_mean (day_rows dat cur) 18 23)"
      "cv_pattern_type r = fst (cv_classify (cv_morning_activity r) (cv_midday_activity r)
                        (cv_evening_activity r))"
      using sg by auto
    from r(5) have "cv_pattern_type r = pattern_name (spec_classify_day
                 (spec_segment_mean (day_rows dat cur) 6 11)
                 (spec_segment_mean (day_rows dat cur) 12 17)
                 (spec_segment_mean (day_rows dat cur) 18 23))"
      unfolding r(2-4) by (simp only: cv_classify_Some)
    with r show ?thesis by blast
  qed
  from 1 2 show ?thesis by blast
qed


section \<open>The high-resolution window\<close>





text \<open>
  Claim C3. From the initial window (8, 10), the invalid entry (10, 8) is answered with the
  error dialog, and the view mode, the model and the candle interval stay as they were;
  the stored window however is (10, 8) afterwards, in \<^verbatim>\<open>KinetiCandles_v3.py\<close> and in
  \<^verbatim>\<open>candle.py\<close> alike: the entry is stored before it is validated.
\<close>


theorem invalid_window_is_stored:
  "invalid_window 10 8
   \<and> selected_start_hour init_app = 8 \<and> selected_end_hour init_app = 10
   \<and> update_high_res_view init_app (Inr 10) (Inr 8)
       = init_app\<lparr>selected_start_hour := 10, selected_end_hour := 8,
                  ui := [ShowError ''Invalid Time Window''
                           ''End hour must be greater than start hour'']\<rparr>
   \<and> cv_selected_start_hour init_candle_app = 8 \<and> cv_selected_end_hour init_candle_app = 10
   \<and> cv_update_high_res_view init_candle_app (Inr 10) (Inr 8)
       = init_candle_app\<lparr>cv_selected_start_hour := 10, cv_selected_end_hour := 8,
                  cv_ui := [ShowError ''Invalid Time Window''
                              ''Time window must be between 1 and 4 hours'']\<rparr>"
  by (simp add: invalid_window_def update_high_res_view_def update_high_res_view_try_def
      cv_update_high_res_view_def cv_update_high_res_view_try_def
      init_app_def init_candle_app_def emit_def)









section \<open>The claims at concrete inputs\<close>

lemmas time_defs = ts_at_def epoch_def dt_date_def dt_hour_def dt_minute_def dt_second_def

lemma data_loaded: "data (loaded rs) = Some (frame_of rs)"
  by (simp add: loaded_def)

lemma monday_only_rows:
  "monday_only = [\<lparr>timestamp = ts_at 4 9 0 0, activity_level = 10, day_of_week = ''Monday''\<rparr>]"
  by (simp add: monday_only_def mk_sample_def day_name_def DAYS_OF_WEEK_def time_defs)

lemma pooled_monday_only:
  "pooled (frame_of monday_only) d = (if d = ''Monday'' then [10] else [])"
  by (auto simp: pooled_def frame_of_def monday_only_rows)

lemma day_mean0_monday_only:
  "day_mean0 (frame_of monday_only) d = (if d = ''Monday'' then 10 else 0)"
  by (simp add: day_mean0_def pooled_monday_only mean_of_def)

lemma daily_monday_only:
  "daily (frame_of monday_only) =
     [(''Monday'', Some 10), (''Tuesday'', Some 0), (''Wednesday'', Some 0), (''Thursday'', Some 0),
      (''Friday'', Some 0), (''Saturday'', Some 0), (''Sunday'', Some 0)]"
  by (simp add: daily_def DAYS_OF_WEEK_def day_mean0_monday_only)

lemma active_monday_only:
  "most_active_day (the (analyze_week_patterns (loaded monday_only))) = Some ''Monday''"
  "least_active_day (the (analyze_week_patterns (loaded monday_only))) = Some ''Tuesday''"
proof -
  have "idxmax (daily (frame_of monday_only)) = Some ''Monday''"
    by (simp add: daily_monday_only idxmax_def map_filter_simps)
  moreover have "idxmin (daily (frame_of monday_only)) = Some ''Tuesday''"
    by (simp add: daily_monday_only idxmin_def map_filter_simps)
  ultimately show
    "most_active_day (the (analyze_week_patterns (loaded monday_only))) = Some ''Monday''"
    "least_active_day (the (analyze_week_patterns (loaded monday_only))) = Some ''Tuesday''"
    using analyze_week_closed[OF data_loaded, of monday_only] by auto
qed

lemma cv_daily_avg_closed:
  "reindex DAYS_OF_WEEK None
     (map (\<lambda>(k, g). (k, agg_mean (map activity_level g))) (groupby day_of_week dat))
   = map (\<lambda>d. (d, agg_mean (pooled (frame_of dat) d))) DAYS_OF_WEEK"
proof -
  have "(case map_of (map (\<lambda>(k, g). (k, agg_mean (map activity_level g)))
                  (groupby day_of_week dat)) d of None \<Rightarrow> None | Some v \<Rightarrow> v)
        = agg_mean (pooled (frame_of dat) d)" for d
    by (simp add: map_of_map map_of_groupby pooled_def frame_of_def agg_mean_def
        filter_key_empty_iff[symmetric])
  then show ?thesis
    unfolding reindex_def by simp
qed


lemma cv_week_monday_only:
  "cvw_weekday_avg (cv_analyze_week_patterns monday_only) = Some 10"
  "cvw_most_active_day (cv_analyze_week_patterns monday_only) = Some ''Monday''"
  "cvw_least_active_day (cv_analyze_week_patterns monday_only) = Some ''Monday''"
proof -
  have d: "map (\<lambda>d. (d, agg_mean (pooled (frame_of monday_only) d))) DAYS_OF_WEEK
           = [(''Monday'', Some 10), (''Tuesday'', None), (''Wednesday'', None),
              (''Thursday'', None), (''Friday'', None), (''Saturday'', None), (''Sunday'', None)]"
    by (simp add: DAYS_OF_WEEK_def pooled_monday_only agg_mean_def)
  show "cvw_weekday_avg (cv_analyze_week_patterns monday_only) = Some 10"
    unfolding cv_analyze_week_patterns_def cv_daily_avg_closed d Let_def
    by (simp add: loc_def series_mean_def dropna_def agg_mean_def map_filter_simps)
  show "cvw_most_active_day (cv_analyze_week_patterns monday_only) = Some ''Monday''"
    unfolding cv_analyze_week_patterns_def cv_daily_avg_closed d Let_def
    by (simp add: idxmax_def map_filter_simps)
  show "cvw_least_active_day (cv_analyze_week_patterns monday_only) = Some ''Monday''"
    unfolding cv_analyze_week_patterns_def cv_daily_avg_closed d Let_def
    by (simp add: idxmin_def map_filter_simps)
qed


text \<open>
  Claim C1. With one sample of level 10, on a Monday, Monday is the only weekday with
  samples and the mean of the weekday means present is 10. The analysis of
  \<^verbatim>\<open>KinetiCandles_v3.py\<close> gives the weekday mean 2: the four weekdays without samples each
  enter the mean as 0. The analysis of \<^verbatim>\<open>candle.py\<close> gives 10.
\<close>


theorem week_side_mean_counts_absent_days:
  "pooled (frame_of monday_only) ''Monday'' = [10]
   \<and> filter (\<lambda>d. pooled (frame_of monday_only) d \<noteq> []) weekdays = [''Monday'']
   \<and> spec_side_mean (frame_of monday_only) weekdays = 10
   \<and> weekday_avg (the (analyze_week_patterns (loaded monday_only))) = Some 2
   \<and> cvw_weekday_avg (cv_analyze_week_patterns monday_only) = Some 10"
proof -
  have s: "sum_list (map (day_mean0 (frame_of monday_only)) weekdays) / 5 = 2"
    by (simp add: weekdays_def day_mean0_monday_only)
  from analyze_week_closed[OF data_loaded, of monday_only] s
  have "weekday_avg (the (analyze_week_patterns (loaded monday_only))) = Some 2"
    by auto
  moreover have "spec_side_mean (frame_of monday_only) weekdays = 10"
    by (simp add: spec_side_mean_def weekdays_def pooled_monday_only mean_of_def)
  ultimately show ?thesis
    by (simp add: pooled_monday_only cv_week_monday_only weekdays_def)
qed


text \<open>
  Claim C2. With one sample, on a Monday, Monday is the only day with data, and the least
  active day of \<^verbatim>\<open>KinetiCandles_v3.py\<close> is Tuesday, a day without data; \<^verbatim>\<open>candle.py\<close> gives
  Monday. With no sample at all, no day has data, and both days are Monday, not null.
\<close>


theorem week_least_active_day_without_data:
  "filter (\<lambda>d. pooled (frame_of monday_only) d \<noteq> []) DAYS_OF_WEEK = [''Monday'']
   \<and> most_active_day (the (analyze_week_patterns (loaded monday_only))) = Some ''Monday''
   \<and> least_active_day (the (analyze_week_patterns (loaded monday_only))) = Some ''Tuesday''
   \<and> cvw_least_active_day (cv_analyze_week_patterns monday_only) = Some ''Monday''
   \<and> filter (\<lambda>d. pooled (frame_of []) d \<noteq> []) DAYS_OF_WEEK = []
   \<and> most_active_day (the (analyze_week_patterns (loaded []))) = Some ''Monday''
   \<and> least_active_day (the (analyze_week_patterns (loaded []))) = Some ''Monday''"
proof -
  have d: "daily (frame_of []) = map (\<lambda>d. (d, Some 0)) DAYS_OF_WEEK"
    by (simp add: daily_def day_mean0_def pooled_def frame_of_def)
  have "idxmax (daily (frame_of [])) = Some ''Monday''" "idxmin (daily (frame_of [])) = Some ''Monday''"
    unfolding d by (simp_all add: DAYS_OF_WEEK_def idxmax_def idxmin_def map_filter_simps)
  then have e: "most_active_day (the (analyze_week_patterns (loaded []))) = Some ''Monday''"
    "least_active_day (the (analyze_week_patterns (loaded []))) = Some ''Monday''"
    using analyze_week_closed[OF data_loaded, of "[]"] by auto
  have p: "filter (\<lambda>d. pooled (frame_of []) d \<noteq> []) DAYS_OF_WEEK = []"
    by (simp add: pooled_def frame_of_def)
  have q: "filter (\<lambda>d. pooled (frame_of monday_only) d \<noteq> []) DAYS_OF_WEEK = [''Monday'']"
    by (simp add: pooled_monday_only DAYS_OF_WEEK_def)
  from e p q active_monday_only cv_week_monday_only(3) show ?thesis by simp
qed


lemma bimodal_day_current:
  "get_data_for_current_day (loaded bimodal_day) = Some bimodal_day"
  by (simp add: get_data_for_current_day_def get_current_date_def loaded_def frame_of_def
      bimodal_day_def mk_sample_def time_defs)

lemma bimodal_segments:
  "segment_hours bimodal_day 6 11 = [6]" "segment_hours bimodal_day 12 17 = [12]"
  "segment_hours bimodal_day 18 23 = [18]"
  by (simp_all add: segment_hours_def hour_values_def bimodal_day_def mk_sample_def time_defs upto.simps)


lemma bimodal_means:
  "spec_segment_mean bimodal_day 6 11 = 50" "spec_segment_mean bimodal_day 12 17 = 30"
  "spec_segment_mean bimodal_day 18 23 = 50"
  unfolding spec_segment_mean_def bimodal_segments
  by (simp_all add: hour_values_def bimodal_day_def mk_sample_def time_defs mean_of_def)


lemma bimodal_days:
  "days_of bimodal_day = [0]" "day_rows bimodal_day 0 = bimodal_day"
  by (simp_all add: day_rows_def days_of_def bimodal_day_def mk_sample_def time_defs)


theorem day_pattern_priority_witness:
  "get_data_for_current_day (loaded bimodal_day) = Some bimodal_day
   \<and> bimodal_day \<noteq> []
   \<and> spec_segment_mean bimodal_day 6 11 = 50
   \<and> spec_segment_mean bimodal_day 12 17 = 30
   \<and> spec_segment_mean bimodal_day 18 23 = 50
   \<and> pattern_type (the (analyze_day_patterns (loaded bimodal_day))) = ''bimodal''
   \<and> 0 < length (days_of bimodal_day)
   \<and> segment_hours (day_rows bimodal_day 0) 6 11 = [6]
   \<and> segment_hours (day_rows bimodal_day 0) 12 17 = [12]
   \<and> segment_hours (day_rows bimodal_day 0) 18 23 = [18]
   \<and> cv_pattern_type (the (cv_analyze_day_patterns bimodal_day 0)) = ''Bimodal Pattern''"
proof -
  have ne: "bimodal_day \<noteq> []" by (simp add: bimodal_day_def)
  have l: "0 < length (days_of bimodal_day)" by (simp add: bimodal_days)
  have pn: "pattern_name (spec_classify_day 50 30 50) = ''Bimodal Pattern''"
    by (simp add: pattern_name_def spec_classify_day_def)
  note t = day_pattern_priority[of "loaded bimodal_day" bimodal_day 0 bimodal_day]
  from t bimodal_day_current ne bimodal_means
  have 1: "pattern_type (the (analyze_day_patterns (loaded bimodal_day))) = ''bimodal''"
    by auto
  from t l bimodal_segments pn
  have 2: "cv_pattern_type (the (cv_analyze_day_patterns bimodal_day 0)) = ''Bimodal Pattern''"
    unfolding bimodal_days bimodal_means by auto
  from 1 2 ne l bimodal_day_current bimodal_means bimodal_segments show ?thesis
    by (simp add: bimodal_days)
qed


lemma minute_0807_current:
  "get_data_for_current_day (loaded minute_0807) = Some minute_0807"
  by (simp add: get_data_for_current_day_def get_current_date_def loaded_def frame_of_def
      minute_0807_def mk_sample_def time_defs)

lemma window_8_9: "get_high_resolution_data (loaded minute_0807) 8 9 = Some window_0807"
  by (simp add: get_high_resolution_data_def minute_0807_current Let_def)
     (simp add: minute_0807_def window_0807_def mk_sample_def time_defs day_name_def DAYS_OF_WEEK_def)

lemma window_5_9: "get_high_resolution_data (loaded minute_0807) 5 9 = Some window_0807"
  by (simp add: get_high_resolution_data_def minute_0807_current Let_def)
     (simp add: minute_0807_def window_0807_def mk_sample_def time_defs day_name_def DAYS_OF_WEEK_def)

lemma sbs_window_0807:
  "map (\<lambda>r. spec_bucket_start 60 (timestamp r)) window_0807 = [29220, 29220, 29340]"
  by (simp add: window_0807_def interval_of_floor[symmetric] interval_of_def time_defs)

lemma bucket_0807: "bucket 60 window_0807 29220 = take 2 window_0807"
  by (simp add: bucket_def window_0807_def interval_of_floor[symmetric] interval_of_def time_defs)

lemma bucket_0809: "bucket 60 window_0807 29340 = drop 2 window_0807"
  by (simp add: bucket_def window_0807_def interval_of_floor[symmetric] interval_of_def time_defs)

theorem bucket_start_epoch_aligned_witness:
  "(0::int) < 60 \<and> hd window_0807 \<in> set window_0807
   \<and> timestamp (hd window_0807) = ts_at 0 8 7 31
   \<and> (epoch (ts_at 0 8 7 0), take 2 window_0807) \<in> set (interval_groups 60 window_0807)
   \<and> get_high_resolution_data (loaded minute_0807) 8 9 = Some window_0807
   \<and> get_high_resolution_data (loaded minute_0807) 5 9 = Some window_0807"
proof -
  have h: "(0::int) < 60 \<and> hd window_0807 \<in> set window_0807"
    by (simp add: window_0807_def)
  have t: "timestamp (hd window_0807) = ts_at 0 8 7 31"
    by (simp add: window_0807_def)
  have e: "epoch (ts_at 0 8 7 0) = 29220" by (simp add: time_defs)
  have s: "spec_bucket_start 60 (timestamp (hd window_0807)) = 29220"
    using sbs_window_0807 by (simp add: window_0807_def)
  from bucket_start_epoch_aligned[of 60 "hd window_0807" window_0807] h
  have "(spec_bucket_start 60 (timestamp (hd window_0807)),
         bucket 60 window_0807 (spec_bucket_start 60 (timestamp (hd window_0807))))
           \<in> set (interval_groups 60 window_0807)"
    by blast
  then have "(epoch (ts_at 0 8 7 0), take 2 window_0807) \<in> set (interval_groups 60 window_0807)"
    unfolding s e bucket_0807 .
  with h t window_8_9 window_5_9 show ?thesis by simp
qed

theorem candle_iff_two_samples_witness:
  "(0::int) < 60
   \<and> length (bucket 60 window_0807 29220) = 2
   \<and> length (bucket 60 window_0807 29340) = 1
   \<and> (\<exists>c \<in> set (get_candle_data (Some window_0807) 60). c_timestamp c = 29220)
   \<and> \<not> (\<exists>c \<in> set (get_candle_data (Some window_0807) 60). c_timestamp c = 29340)
   \<and> (\<exists>c \<in> set (get_candle_data (Some window_0807) 60).
         c_first c = Some 3 \<and> c_last c = Some 7 \<and> c_max c = Some 7 \<and> c_min c = Some 3)"
proof -
  have l1: "length (bucket 60 window_0807 29220) = 2" and l2: "length (bucket 60 window_0807 29340) = 1"
    unfolding bucket_0807 bucket_0809 by (simp_all add: window_0807_def)
  have W: "(0::int) < 60" by simp
  note a = candle_iff_two_samples[OF W, of window_0807 29220]
  note b = candle_iff_two_samples[OF W, of window_0807 29340]
  from a l1 have 1: "\<exists>c \<in> set (get_candle_data (Some window_0807) 60). c_timestamp c = 29220"
    by simp
  from b l2 have 2: "\<not> (\<exists>c \<in> set (get_candle_data (Some window_0807) 60). c_timestamp c = 29340)"
    by simp
  have only: "c_timestamp c = 29220" if "c \<in> set (get_candle_data (Some window_0807) 60)" for c
  proof -
    from that obtain k where "c = make_candle 60 k (bucket 60 window_0807 k)"
      and k: "1 < length (bucket 60 window_0807 k)"
      by (auto simp: get_candle_data_set)
    from k have "bucket 60 window_0807 k \<noteq> []" by auto
    then have "hd (bucket 60 window_0807 k) \<in> set (bucket 60 window_0807 k)"
      by (rule hd_in_set)
    then obtain r where "r \<in> set window_0807" "spec_bucket_start 60 (timestamp r) = k"
      unfolding bucket_def by auto
    then have "k \<in> set (map (\<lambda>r. spec_bucket_start 60 (timestamp r)) window_0807)" by auto
    then have "k = 29220 \<or> k = 29340" unfolding sbs_window_0807 by simp
    with k l2 have "k = 29220" by auto
    with \<open>c = make_candle 60 k (bucket 60 window_0807 k)\<close> show ?thesis by simp
  qed
  have v: "activity_level (hd (bucket 60 window_0807 29220)) = 3"
    "activity_level (last (bucket 60 window_0807 29220)) = 7"
    "Max (activity_level ` set (bucket 60 window_0807 29220)) = 7"
    "Min (activity_level ` set (bucket 60 window_0807 29220)) = 3"
    unfolding bucket_0807 by (simp_all add: window_0807_def)
  from a only v have 3: "\<forall>c \<in> set (get_candle_data (Some window_0807) 60).
         c_first c = Some 3 \<and> c_last c = Some 7 \<and> c_max c = Some 7 \<and> c_min c = Some 3"
    by auto
  from 1 3 have 4: "\<exists>c \<in> set (get_candle_data (Some window_0807) 60).
         c_first c = Some 3 \<and> c_last c = Some 7 \<and> c_max c = Some 7 \<and> c_min c = Some 3"
    by blast
  from W l1 l2 1 2 4 show ?thesis by blast
qed

lemma two_mondays_rows:
  "two_mondays = [\<lparr>timestamp = ts_at 4 9 0 0, activity_level = 10, day_of_week = ''Monday''\<rparr>,
                  \<lparr>timestamp = ts_at 11 9 0 0, activity_level = 20, day_of_week = ''Monday''\<rparr>]"
  by (simp add: two_mondays_def mk_sample_def day_name_def DAYS_OF_WEEK_def time_defs)

theorem week_view_candles_witness:
  "data (loaded two_mondays) = Some (frame_of two_mondays)
   \<and> pooled (frame_of two_mondays) ''Monday'' = [10, 20]
   \<and> map fst (the (get_weekly_data (loaded two_mondays))) = DAYS_OF_WEEK
   \<and> length (plot_week_view (get_weekly_data (loaded two_mondays))) = 7
   \<and> wc_open (plot_week_view (get_weekly_data (loaded two_mondays)) ! 0) = Some 15
   \<and> wc_close (plot_week_view (get_weekly_data (loaded two_mondays)) ! 0) = Some 15
   \<and> wc_high (plot_week_view (get_weekly_data (loaded two_mondays)) ! 0) = Some 20
   \<and> wc_low (plot_week_view (get_weekly_data (loaded two_mondays)) ! 0) = Some 10
   \<and> wc_open (plot_week_view (get_weekly_data (loaded two_mondays)) ! 1) = None"
proof -
  have p: "pooled (frame_of two_mondays) d = (if d = ''Monday'' then [10, 20] else [])" for d
    by (auto simp: pooled_def frame_of_def two_mondays_rows)
  from week_view_candles[OF data_loaded, of two_mondays] obtain wd where
    wd: "get_weekly_data (loaded two_mondays) = Some wd" "map fst wd = DAYS_OF_WEEK"
      "length (plot_week_view (Some wd)) = 7"
    and c: "\<forall>i < 7. let c = plot_week_view (Some wd) ! i;
                       vs = pooled (frame_of two_mondays) (DAYS_OF_WEEK ! i)
                   in wc_x c = i \<and> wc_open c = wc_close c
                      \<and> (if vs = [] then wc_open c = None \<and> wc_high c = None \<and> wc_low c = None
                          else wc_open c = Some (mean_of vs) \<and> wc_high c = Some (Max (set vs))
                               \<and> wc_low c = Some (Min (set vs)))"
    by blast
  from c have c0: "let c = plot_week_view (Some wd) ! 0;
                       vs = pooled (frame_of two_mondays) (DAYS_OF_WEEK ! 0)
                   in wc_x c = 0 \<and> wc_open c = wc_close c
                      \<and> (if vs = [] then wc_open c = None \<and> wc_high c = None \<and> wc_low c = None
                          else wc_open c = Some (mean_of vs) \<and> wc_high c = Some (Max (set vs))
                               \<and> wc_low c = Some (Min (set vs)))"
    by simp
  from c have c1: "let c = plot_week_view (Some wd) ! 1;
                       vs = pooled (frame_of two_mondays) (DAYS_OF_WEEK ! 1)
                   in wc_x c = 1 \<and> wc_open c = wc_close c
                      \<and> (if vs = [] then wc_open c = None \<and> wc_high c = None \<and> wc_low c = None
                          else wc_open c = Some (mean_of vs) \<and> wc_high c = Some (Max (set vs))
                               \<and> wc_low c = Some (Min (set vs)))"
    by simp
  have d0: "DAYS_OF_WEEK ! 0 = ''Monday''" and d1: "DAYS_OF_WEEK ! 1 = ''Tuesday''"
    by (simp_all add: DAYS_OF_WEEK_def)
  from c0 have 0: "wc_open (plot_week_view (Some wd) ! 0) = Some 15"
     "wc_close (plot_week_view (Some wd) ! 0) = Some 15"
     "wc_high (plot_week_view (Some wd) ! 0) = Some 20"
     "wc_low (plot_week_view (Some wd) ! 0) = Some 10"
    unfolding d0 by (auto simp: p mean_of_def Let_def)
  from c1 have 1: "wc_open (plot_week_view (Some wd) ! 1) = None"
    unfolding d1 by (auto simp: p Let_def)
  from wd 0 1 show ?thesis by (simp add: data_loaded p)
qed


text \<open>
  The claim C8 does not hold of the week view of \<^verbatim>\<open>candle.py\<close>: with Monday samples of
  levels 10 and 20 (mean 15) its candle opens at 10 and closes at 20, and it draws one
  candle, not seven.
\<close>


theorem cv_week_view_counterexample:
  "pooled (frame_of two_mondays) ''Monday'' = [10, 20]
   \<and> mean_of (pooled (frame_of two_mondays) ''Monday'') = 15
   \<and> map (\<lambda>c. (wc_x c, wc_open c, wc_close c)) (cv_plot_week_view two_mondays)
       = [(0, Some 10, Some 20)]
   \<and> length (cv_plot_week_view two_mondays) = 1"
proof -
  have p: "pooled (frame_of two_mondays) d = (if d = ''Monday'' then [10, 20] else [])" for d
    by (auto simp: pooled_def frame_of_def two_mondays_rows)
  have 1: "map (\<lambda>c. (wc_x c, wc_open c, wc_close c)) (cv_plot_week_view two_mondays) = [(0, Some 10, Some 20)]"
    by (simp add: cv_plot_week_view_def two_mondays_rows DAYS_OF_WEEK_def enumerate_eq_zip
        agg_first_def agg_last_def Let_def upt_rec)
  from arg_cong[OF 1, of length] have 2: "length (cv_plot_week_view two_mondays) = 1" by simp
  from 1 2 show ?thesis by (simp add: p mean_of_def)
qed



text \<open>
  Claim C10. The call on a frame of one row returns that frame with the column
  \<^verbatim>\<open>minute_key\<close> added: the frame of the caller is not what it was before the call.
\<close>

theorem detect_adds_minute_key_column:
  "snd (detect_data_resolution init_model (frame_of monday_only) [])
     = (frame_of monday_only)\<lparr>minute_key := Some [(4, 9, 0)]\<rparr>
   \<and> snd (detect_data_resolution init_model (frame_of monday_only) []) \<noteq> frame_of monday_only
   \<and> columns (frame_of monday_only) = [''timestamp'', ''activity_level'', ''day_of_week'']
   \<and> columns (snd (detect_data_resolution init_model (frame_of monday_only) []))
       = [''timestamp'', ''activity_level'', ''day_of_week'', ''minute_key'']"
proof -
  have l: "length (rows (frame_of monday_only)) \<le> 1000"
    by (simp add: frame_of_def monday_only_def)
  have k: "map (\<lambda>r. strftime_minute (timestamp r)) (rows (frame_of monday_only)) = [(4, 9, 0)]"
    by (simp add: frame_of_def monday_only_def mk_sample_def strftime_minute_def time_defs)
  show ?thesis
    unfolding detect_small[OF l] k by (simp add: columns_def frame_of_def)
qed

text \<open>
  The column stays in the data that \<^verbatim>\<open>load_data\<close> stores.
\<close>

lemma load_data_keeps_minute_key:
  "\<exists>m. load_data init_model [''timestamp'', ''activity_level''] [(ts_at 4 9 0 0, 10)] [] = Inr m
       \<and> map_option columns (data m)
           = Some [''timestamp'', ''activity_level'', ''day_of_week'', ''minute_key'']"
proof -
  let ?f = "\<lparr>rows = [\<lparr>timestamp = ts_at 4 9 0 0, activity_level = 10,
                        day_of_week = day_name (ts_at 4 9 0 0)\<rparr>], minute_key = None\<rparr>"
  have l: "length (rows ?f) \<le> 1000" by simp
  show ?thesis
    by (simp add: load_data_def detect_small[OF l] Let_def columns_def)
qed

end
